theory Spec2Isabelle
  imports Main
begin

section \<open>The object store controller of longhorn-manager\<close>

text \<open>
  A shallow embedding of the object store controller (the second part of
  \<^verbatim>\<open>controller/object_store_controller_test.go\<close>, after the unit tests): the reconcile
  entry point, the per-state handlers, the get-or-create operations, the health checks and
  the responsibility check. Go pointers to the object store are modelled by state passing:
  every function that mutates \<^verbatim>\<open>store.Status\<close> returns the updated object store, and every
  function that calls the datastore returns the updated datastore.
\<close>

subsection \<open>Errors and outcomes\<close>

text \<open>
  \<open>NotFound\<close> stands for every error that \<^verbatim>\<open>datastore.ErrorIsNotFound\<close> recognises,
  \<open>AlreadyExists\<close> for every error that \<^verbatim>\<open>datastore.ErrorIsAlreadyExists\<close> recognises.
  \<open>Wrapped msg e\<close> is \<^verbatim>\<open>errors.Wrap(e, msg)\<close>, \<open>New msg\<close> is \<^verbatim>\<open>errors.New(msg)\<close>.
\<close>

datatype err = NotFound | AlreadyExists | Conflict | ApiError string
  | Wrapped string err | New string

fun ErrorIsNotFound :: "err \<Rightarrow> bool" where
  "ErrorIsNotFound NotFound = True"
| "ErrorIsNotFound _ = False"

fun ErrorIsAlreadyExists :: "err \<Rightarrow> bool" where
  "ErrorIsAlreadyExists AlreadyExists = True"
| "ErrorIsAlreadyExists _ = False"

text \<open>
  What a function with result type \<^verbatim>\<open>error\<close> does: it returns nil (\<open>Ok\<close>), returns an
  error (\<open>Fail\<close>), or panics on a nil pointer dereference (\<open>NilPanic\<close>).
\<close>

datatype outcome = Ok | Fail err | NilPanic

subsection \<open>Resources\<close>

text \<open>
  The Kubernetes and Longhorn API types are declared outside the controller. The records
  keep the fields that the controller reads or sets. \<^verbatim>\<open>int32\<close> counters are \<open>int\<close>: the
  controller only compares them with 0 and 1. A \<^verbatim>\<open>resource.Quantity\<close> is its number of
  bytes. A state is a string constant in Go; \<open>StateNone\<close> is the empty string of a status
  that was never written, and every value that is not listed behaves like \<open>Unknown\<close>.
  A deletion timestamp that is nil or zero is \<open>None\<close>. A nil \<^verbatim>\<open>Spec.Replicas\<close> of a
  deployment is \<open>None\<close>. Claim phases, volume phases and the robustness of a volume are
  string constants as well, with one constructor for each value and one for the empty
  string.
\<close>

datatype objectStoreState = StateNone | Unknown | Starting | Running | Stopping
  | Stopped | Error | Terminating

record objectStoreEndpointSpec =
  epName :: string
  epDomainName :: string
  epTLSName :: string

record volumeParameters =
  vpNumberOfReplicas :: int
  vpReplicaSoftAntiAffinity :: string
  vpReplicaZoneSoftAntiAffinity :: string
  vpReplicaDiskSoftAntiAffinity :: string
  vpDiskSelector :: "string list"
  vpNodeSelector :: "string list"
  vpDataLocality :: string
  vpFromBackup :: string
  vpStaleReplicaTimeout :: int
  vpReplicaAutoBalance :: string
  vpRevisionCounterDisabled :: bool
  vpUnmapMarkSnapChainRemoved :: string
  vpBackendStoreDriver :: string

record objectStoreSpec =
  specSize :: int
  specImage :: string
  specUIImage :: string
  specCredentialsName :: string
  specTargetState :: objectStoreState
  specEndpoints :: "objectStoreEndpointSpec list"
  specVolumeParameters :: volumeParameters

record objectStoreStatus =
  State :: objectStoreState
  Endpoints :: "string list"

record objectStore =
  osName :: string
  osDeletionTimestamp :: "nat option"
  osFinalizers :: "string list"
  Spec :: objectStoreSpec
  Status :: objectStoreStatus

type_synonym ownerReference = "string \<times> string"
type_synonym labels = "(string \<times> string) list"

datatype claimPhase = ClaimNoPhase | ClaimPending | ClaimBound | ClaimLost

record persistentVolumeClaim =
  pvcName :: string
  pvcNamespace :: string
  pvcLabels :: labels
  pvcOwnerReferences :: "ownerReference list"
  pvcAccessModes :: "string list"
  pvcRequestsStorage :: int
  pvcStorageClassName :: "string option"
  pvcVolumeName :: string
  pvcPhase :: claimPhase

datatype volumeRobustness = RobustnessNone | Healthy | Degraded | Faulted | RobustnessUnknown

record volume =
  volName :: string
  volNamespace :: string
  volLabels :: labels
  volAnnotations :: "(string \<times> string) list"
  volOwnerReferences :: "ownerReference list"
  volSize :: int
  volFrontend :: string
  volAccessMode :: string
  volParameters :: volumeParameters
  volRobustness :: volumeRobustness
  volOwnerID :: string

datatype persistentVolumePhase = VolumeNoPhase | VolumePending | VolumeAvailable
  | VolumeBound | VolumeReleased | VolumeFailed

record persistentVolume =
  pvName :: string
  pvLabels :: labels
  pvAccessModes :: "string list"
  pvCapacityStorage :: int
  pvStorageClassName :: string
  pvReclaimPolicy :: string
  pvVolumeMode :: "string option"
  pvClaimRef :: "string \<times> string \<times> string \<times> string"
  pvCSIDriver :: string
  pvCSIVolumeHandle :: string
  pvCSIFSType :: string
  pvCSIVolumeAttributes :: "(string \<times> string) list"
  pvPhase :: persistentVolumePhase

record container =
  ctrName :: string
  ctrImage :: string
  ctrArgs :: "string list"
  ctrPorts :: "(string \<times> int \<times> string) list"
  ctrEnv :: "(string \<times> string) list"
  ctrEnvFrom :: "string list"
  ctrVolumeMounts :: "(string \<times> string) list"

record deployment =
  dplName :: string
  dplNamespace :: string
  dplLabels :: labels
  dplOwnerReferences :: "ownerReference list"
  dplSelector :: labels
  dplReplicas :: "int option"
  dplStrategy :: string
  dplTemplateLabels :: labels
  dplContainers :: "container list"
  dplVolumes :: "(string \<times> string) list"
  dplImagePullSecrets :: "string list"
  dplStatusReplicas :: int
  dplAvailableReplicas :: int
  dplUnavailableReplicas :: int

record servicePort =
  spName :: string
  spProtocol :: string
  spPort :: int
  spTargetPort :: int

record service =
  svcName :: string
  svcNamespace :: string
  svcLabels :: labels
  svcOwnerReferences :: "ownerReference list"
  svcSelector :: labels
  svcPorts :: "servicePort list"

record ingressBackend =
  beServiceName :: string
  bePortName :: string

record httpIngressPath =
  ipPath :: string
  ipPathType :: string
  ipBackend :: ingressBackend

record ingressRule =
  irHost :: string
  irPaths :: "httpIngressPath list"

record ingressTLS =
  tlsSecretName :: string
  tlsHosts :: "string list"

record ingress =
  ingName :: string
  ingNamespace :: string
  ingLabels :: labels
  ingOwnerReferences :: "ownerReference list"
  ingRules :: "ingressRule list"
  ingTLS :: "ingressTLS list"

record secret =
  secName :: string

subsection \<open>The datastore\<close>

text \<open>
  Every write call that the controller issues is recorded, whether it succeeds or not.
\<close>

datatype action =
    ACreatePersistentVolumeClaim persistentVolumeClaim
  | ACreateVolume volume
  | ACreatePersistentVolume persistentVolume
  | ACreateDeployment deployment
  | ACreateService service
  | ACreateIngress ingress
  | AUpdateDeployment deployment
  | AUpdateObjectStoreStatus objectStore
  | ARemoveFinalizerForObjectStore objectStore

text \<open>
  Modelled from the spec: the package \<^verbatim>\<open>datastore\<close> is not among the sources. The
  specification gives its interface: \<^verbatim>\<open>get\<close> returns the resource, NotFound or another
  error; \<^verbatim>\<open>create\<close> returns the resource, AlreadyExists or another error; \<^verbatim>\<open>update\<close>
  returns the resource, Conflict or another error. A table maps a name to the result of a
  lookup (\<open>Inl NotFound\<close> where there is no resource); all namespaced lookups of the
  controller go to the one namespace it runs in, so the tables are keyed by name.
  \<open>dsFault\<close> is the error, if any, with which the API server answers a write call; a write
  call that is answered without error stores the resource under its name.
\<close>

record datastore =
  dsObjectStores :: "string \<Rightarrow> err + objectStore"
  dsPersistentVolumeClaims :: "string \<Rightarrow> err + persistentVolumeClaim"
  dsVolumes :: "string \<Rightarrow> err + volume"
  dsPersistentVolumes :: "string \<Rightarrow> err + persistentVolume"
  dsDeployments :: "string \<Rightarrow> err + deployment"
  dsServices :: "string \<Rightarrow> err + service"
  dsIngresses :: "string \<Rightarrow> err + ingress"
  dsSecrets :: "string \<Rightarrow> err + secret"
  dsRegistrySecretSetting :: "err + string"
  dsFault :: "action \<Rightarrow> err option"
  dsActions :: "action list"

definition GetObjectStore :: "datastore \<Rightarrow> string \<Rightarrow> err + objectStore" where
  "GetObjectStore ds name = dsObjectStores ds name"

definition GetPersistentVolumeClaim ::
  "datastore \<Rightarrow> string \<Rightarrow> string \<Rightarrow> err + persistentVolumeClaim" where
  "GetPersistentVolumeClaim ds namespace name = dsPersistentVolumeClaims ds name"

definition GetVolume :: "datastore \<Rightarrow> string \<Rightarrow> err + volume" where
  "GetVolume ds name = dsVolumes ds name"

definition GetVolumeRO :: "datastore \<Rightarrow> string \<Rightarrow> err + volume" where
  "GetVolumeRO ds name = dsVolumes ds name"

definition GetPersistentVolume :: "datastore \<Rightarrow> string \<Rightarrow> err + persistentVolume" where
  "GetPersistentVolume ds name = dsPersistentVolumes ds name"

definition GetDeployment :: "datastore \<Rightarrow> string \<Rightarrow> err + deployment" where
  "GetDeployment ds name = dsDeployments ds name"

definition GetService :: "datastore \<Rightarrow> string \<Rightarrow> string \<Rightarrow> err + service" where
  "GetService ds namespace name = dsServices ds name"

definition GetIngress :: "datastore \<Rightarrow> string \<Rightarrow> string \<Rightarrow> err + ingress" where
  "GetIngress ds namespace name = dsIngresses ds name"

definition GetSecret :: "datastore \<Rightarrow> string \<Rightarrow> string \<Rightarrow> err + secret" where
  "GetSecret ds namespace name = dsSecrets ds name"

definition GetSetting :: "datastore \<Rightarrow> err + string" where
  "GetSetting ds = dsRegistrySecretSetting ds"

definition record_action :: "action \<Rightarrow> datastore \<Rightarrow> datastore" where
  "record_action a ds = ds\<lparr>dsActions := dsActions ds @ [a]\<rparr>"

definition CreatePersistentVolumeClaim ::
  "datastore \<Rightarrow> string \<Rightarrow> persistentVolumeClaim
     \<Rightarrow> (err + persistentVolumeClaim) \<times> datastore" where
  "CreatePersistentVolumeClaim ds namespace pvc =
     (case dsFault ds (ACreatePersistentVolumeClaim pvc) of
        Some e \<Rightarrow> (Inl e, record_action (ACreatePersistentVolumeClaim pvc) ds)
      | None \<Rightarrow> (Inr pvc, record_action (ACreatePersistentVolumeClaim pvc)
          (ds\<lparr>dsPersistentVolumeClaims :=
                (dsPersistentVolumeClaims ds)(pvcName pvc := Inr pvc)\<rparr>)))"

definition CreateVolume :: "datastore \<Rightarrow> volume \<Rightarrow> (err + volume) \<times> datastore" where
  "CreateVolume ds vol =
     (case dsFault ds (ACreateVolume vol) of
        Some e \<Rightarrow> (Inl e, record_action (ACreateVolume vol) ds)
      | None \<Rightarrow> (Inr vol, record_action (ACreateVolume vol)
          (ds\<lparr>dsVolumes := (dsVolumes ds)(volName vol := Inr vol)\<rparr>)))"

definition CreatePersistentVolume ::
  "datastore \<Rightarrow> persistentVolume \<Rightarrow> (err + persistentVolume) \<times> datastore" where
  "CreatePersistentVolume ds pv =
     (case dsFault ds (ACreatePersistentVolume pv) of
        Some e \<Rightarrow> (Inl e, record_action (ACreatePersistentVolume pv) ds)
      | None \<Rightarrow> (Inr pv, record_action (ACreatePersistentVolume pv)
          (ds\<lparr>dsPersistentVolumes := (dsPersistentVolumes ds)(pvName pv := Inr pv)\<rparr>)))"

definition CreateDeployment ::
  "datastore \<Rightarrow> deployment \<Rightarrow> (err + deployment) \<times> datastore" where
  "CreateDeployment ds dpl =
     (case dsFault ds (ACreateDeployment dpl) of
        Some e \<Rightarrow> (Inl e, record_action (ACreateDeployment dpl) ds)
      | None \<Rightarrow> (Inr dpl, record_action (ACreateDeployment dpl)
          (ds\<lparr>dsDeployments := (dsDeployments ds)(dplName dpl := Inr dpl)\<rparr>)))"

definition CreateService ::
  "datastore \<Rightarrow> string \<Rightarrow> service \<Rightarrow> (err + service) \<times> datastore" where
  "CreateService ds namespace svc =
     (case dsFault ds (ACreateService svc) of
        Some e \<Rightarrow> (Inl e, record_action (ACreateService svc) ds)
      | None \<Rightarrow> (Inr svc, record_action (ACreateService svc)
          (ds\<lparr>dsServices := (dsServices ds)(svcName svc := Inr svc)\<rparr>)))"

definition CreateIngress ::
  "datastore \<Rightarrow> string \<Rightarrow> ingress \<Rightarrow> (err + ingress) \<times> datastore" where
  "CreateIngress ds namespace ing =
     (case dsFault ds (ACreateIngress ing) of
        Some e \<Rightarrow> (Inl e, record_action (ACreateIngress ing) ds)
      | None \<Rightarrow> (Inr ing, record_action (ACreateIngress ing)
          (ds\<lparr>dsIngresses := (dsIngresses ds)(ingName ing := Inr ing)\<rparr>)))"

definition UpdateDeployment ::
  "datastore \<Rightarrow> deployment \<Rightarrow> (err + deployment) \<times> datastore" where
  "UpdateDeployment ds dpl =
     (case dsFault ds (AUpdateDeployment dpl) of
        Some e \<Rightarrow> (Inl e, record_action (AUpdateDeployment dpl) ds)
      | None \<Rightarrow> (Inr dpl, record_action (AUpdateDeployment dpl)
          (ds\<lparr>dsDeployments := (dsDeployments ds)(dplName dpl := Inr dpl)\<rparr>)))"

text \<open>
  \<^verbatim>\<open>UpdateObjectStoreStatus\<close> writes the status of the given object store into the stored
  object of that name.
\<close>

definition UpdateObjectStoreStatus ::
  "datastore \<Rightarrow> objectStore \<Rightarrow> (err + objectStore) \<times> datastore" where
  "UpdateObjectStoreStatus ds store =
     (case dsFault ds (AUpdateObjectStoreStatus store) of
        Some e \<Rightarrow> (Inl e, record_action (AUpdateObjectStoreStatus store) ds)
      | None \<Rightarrow> (Inr store, record_action (AUpdateObjectStoreStatus store)
          (ds\<lparr>dsObjectStores := (dsObjectStores ds)(osName store := Inr store)\<rparr>)))"

text \<open>
  \<^verbatim>\<open>RemoveFinalizerForObjectStore\<close> stores the object store without its finalizers; the
  physical removal of an object whose finalizers are gone is the API server's work and not
  part of the call.
\<close>

definition RemoveFinalizerForObjectStore :: "datastore \<Rightarrow> objectStore \<Rightarrow> outcome \<times> datastore" where
  "RemoveFinalizerForObjectStore ds store =
     (case dsFault ds (ARemoveFinalizerForObjectStore store) of
        Some e \<Rightarrow> (Fail e, record_action (ARemoveFinalizerForObjectStore store) ds)
      | None \<Rightarrow> (Ok, record_action (ARemoveFinalizerForObjectStore store)
          (ds\<lparr>dsObjectStores :=
                (dsObjectStores ds)(osName store := Inr (store\<lparr>osFinalizers := []\<rparr>))\<rparr>)))"

subsection \<open>The controller\<close>

text \<open>
  \<open>controllerID\<close> and \<open>namespace\<close> are the fields of \<^verbatim>\<open>ObjectStoreController\<close>. The other
  fields are what the controller takes from packages that are not among the sources: the
  constants of package \<^verbatim>\<open>types\<close> (container names, storage class, ports, the formatted
  \<^verbatim>\<open>--debug-rgw\<close> and \<^verbatim>\<open>--rgw_frontends\<close> arguments and the UI's service URL), the label and
  owner-reference helpers of \<^verbatim>\<open>types\<close> and \<^verbatim>\<open>datastore\<close>, and the two image helpers of
  package \<^verbatim>\<open>util\<close>. They are parameters of the model.
\<close>

record controller =
  controllerID :: string
  namespace :: string
  ObjectStoreContainerName :: string
  ObjectStoreUIContainerName :: string
  ObjectStoreStorageClassName :: string
  ObjectStoreContainerPort :: int
  ObjectStoreUIContainerPort :: int
  ObjectStoreStatusContainerPort :: int
  ObjectStoreServicePort :: int
  ObjectStoreUIServicePort :: int
  ObjectStoreStatusServicePort :: int
  LonghornAnnotationObjectStoreName :: string
  debugRgwArg :: string
  rgwFrontendsArg :: string
  s3gwServiceURL :: string
  GetObjectStoreLabels :: "objectStore \<Rightarrow> labels"
  GetObjectStoreSelectorLabels :: "objectStore \<Rightarrow> labels"
  GetOwnerReferencesForObjectStore :: "objectStore \<Rightarrow> ownerReference list"
  GetOwnerReferencesForPVC :: "persistentVolumeClaim \<Rightarrow> ownerReference list"
  GetImageOfDeploymentContainerWithName :: "deployment \<Rightarrow> string \<Rightarrow> string"
  SetImageOfDeploymentContainerWithName ::
    "deployment \<Rightarrow> string \<Rightarrow> string \<Rightarrow> err + deployment"

definition genPVName :: "objectStore \<Rightarrow> string" where
  "genPVName store = ''pv-'' @ osName store"

definition genPVCName :: "objectStore \<Rightarrow> string" where
  "genPVCName store = ''pvc-'' @ osName store"

definition genVolumeMountName :: "objectStore \<Rightarrow> string" where
  "genVolumeMountName store = osName store @ ''-data''"

text \<open>\<^verbatim>\<open>AsInt64\<close> fails on a quantity outside the 64-bit range, and the helper then returns 0.\<close>

definition resourceAsInt64 :: "int \<Rightarrow> int" where
  "resourceAsInt64 r = (if - (2 ^ 63) \<le> r \<and> r < 2 ^ 63 then r else 0)"

text \<open>
  \<^verbatim>\<open>cache.SplitMetaNamespaceKey\<close> of client-go splits the key at every \<^verbatim>\<open>/\<close>: one part
  is a name without namespace, two parts are namespace and name, anything else is an
  error (whose message quotes the key; the quoting is left out here).
\<close>

fun splitSlash :: "string \<Rightarrow> string list" where
  "splitSlash [] = [[]]"
| "splitSlash (x # xs) =
     (if x = CHR ''/'' then [] # splitSlash xs
      else (case splitSlash xs of [] \<Rightarrow> [[x]] | p # ps \<Rightarrow> (x # p) # ps))"

definition SplitMetaNamespaceKey :: "string \<Rightarrow> err + string \<times> string" where
  "SplitMetaNamespaceKey key =
     (case splitSlash key of
        [name] \<Rightarrow> Inr ([], name)
      | [ns, name] \<Rightarrow> Inr (ns, name)
      | _ \<Rightarrow> Inl (New (''unexpected key format: '' @ key)))"

definition setState :: "objectStoreState \<Rightarrow> objectStore \<Rightarrow> objectStore" where
  "setState st store = store\<lparr>Status := (Status store)\<lparr>State := st\<rparr>\<rparr>"

definition appendEndpoint :: "string \<Rightarrow> objectStore \<Rightarrow> objectStore" where
  "appendEndpoint e store =
     store\<lparr>Status := (Status store)\<lparr>Endpoints := Endpoints (Status store) @ [e]\<rparr>\<rparr>"

subsubsection \<open>Builders\<close>

text \<open>
  Each \<^verbatim>\<open>create\<close> function builds the wanted resource as a struct literal and hands it
  to the datastore; the literal is a definition of its own here (\<open>newPVC\<close>, \<open>newVolume\<close>,
  \<open>newPV\<close>, \<open>newService\<close>, \<open>newDeployment\<close>, \<open>newIngress\<close>). The status fields of a new
  resource have their zero values.
\<close>

definition newPVC :: "controller \<Rightarrow> objectStore \<Rightarrow> persistentVolumeClaim" where
  "newPVC c store =
       \<lparr>pvcName = genPVCName store,
        pvcNamespace = namespace c,
        pvcLabels = GetObjectStoreLabels c store,
        pvcOwnerReferences = GetOwnerReferencesForObjectStore c store,
        pvcAccessModes = [''ReadWriteOnce''],
        pvcRequestsStorage = specSize (Spec store),
        pvcStorageClassName = Some (ObjectStoreStorageClassName c),
        pvcVolumeName = genPVName store,
        pvcPhase = ClaimNoPhase\<rparr>"

definition createPVC ::
  "controller \<Rightarrow> objectStore \<Rightarrow> datastore \<Rightarrow> (err + persistentVolumeClaim) \<times> datastore" where
  "createPVC c store ds = CreatePersistentVolumeClaim ds (namespace c) (newPVC c store)"

definition newVolume :: "controller \<Rightarrow> objectStore \<Rightarrow> persistentVolumeClaim \<Rightarrow> volume" where
  "newVolume c store pvc =
       \<lparr>volName = genPVName store,
        volNamespace = namespace c,
        volLabels = GetObjectStoreLabels c store,
        volAnnotations = [(LonghornAnnotationObjectStoreName c, osName store)],
        volOwnerReferences = GetOwnerReferencesForPVC c pvc,
        volSize = resourceAsInt64 (specSize (Spec store)),
        volFrontend = ''blockdev'',
        volAccessMode = ''rwo'',
        volParameters = specVolumeParameters (Spec store),
        volRobustness = RobustnessNone,
        volOwnerID = []\<rparr>"

definition createVolume ::
  "controller \<Rightarrow> objectStore \<Rightarrow> persistentVolumeClaim \<Rightarrow> datastore
     \<Rightarrow> (err + volume) \<times> datastore" where
  "createVolume c store pvc ds = CreateVolume ds (newVolume c store pvc)"

definition newPV :: "controller \<Rightarrow> objectStore \<Rightarrow> volume \<Rightarrow> persistentVolume" where
  "newPV c store vol =
       \<lparr>pvName = genPVName store,
        pvLabels = GetObjectStoreLabels c store,
        pvAccessModes = [''ReadWriteOnce''],
        pvCapacityStorage = specSize (Spec store),
        pvStorageClassName = ObjectStoreStorageClassName c,
        pvReclaimPolicy = ''Retain'',
        pvVolumeMode = Some ''Filesystem'',
        pvClaimRef = (''v1'', ''PersistentVolumeClaim'', namespace c, genPVCName store),
        pvCSIDriver = ''driver.longhorn.io'',
        pvCSIVolumeHandle = volName vol,
        pvCSIFSType = ''xfs'',
        pvCSIVolumeAttributes = [(''mkfsParams'', ''-f -m crc=1 -m reflink=1'')],
        pvPhase = VolumeNoPhase\<rparr>"

definition createPV ::
  "controller \<Rightarrow> objectStore \<Rightarrow> volume \<Rightarrow> datastore
     \<Rightarrow> (err + persistentVolume) \<times> datastore" where
  "createPV c store vol ds = CreatePersistentVolume ds (newPV c store vol)"

definition newService :: "controller \<Rightarrow> objectStore \<Rightarrow> service" where
  "newService c store =
       \<lparr>svcName = osName store,
        svcNamespace = namespace c,
        svcLabels = GetObjectStoreLabels c store,
        svcOwnerReferences = GetOwnerReferencesForObjectStore c store,
        svcSelector = GetObjectStoreSelectorLabels c store,
        svcPorts =
          [\<lparr>spName = ''s3'', spProtocol = ''TCP'', spPort = ObjectStoreServicePort c,
            spTargetPort = ObjectStoreContainerPort c\<rparr>,
           \<lparr>spName = ''ui'', spProtocol = ''TCP'', spPort = ObjectStoreUIServicePort c,
            spTargetPort = ObjectStoreUIContainerPort c\<rparr>,
           \<lparr>spName = ''status'', spProtocol = ''TCP'', spPort = ObjectStoreStatusServicePort c,
            spTargetPort = ObjectStoreStatusContainerPort c\<rparr>]\<rparr>"

definition createService ::
  "controller \<Rightarrow> objectStore \<Rightarrow> datastore \<Rightarrow> (err + service) \<times> datastore" where
  "createService c store ds = CreateService ds (namespace c) (newService c store)"

definition domainNameArgs :: "controller \<Rightarrow> objectStore \<Rightarrow> string list" where
  "domainNameArgs c store =
     [''--rgw-dns-name'', osName store @ ''.'' @ namespace c @ ''.svc'']
     @ concat (map (\<lambda>endpoint. [''--rgw-dns-name'', epDomainName endpoint])
                 (specEndpoints (Spec store)))"

definition newDeployment ::
  "controller \<Rightarrow> objectStore \<Rightarrow> string list \<Rightarrow> string list \<Rightarrow> deployment" where
  "newDeployment c store env imagePullSecrets =
     \<lparr>dplName = osName store,
      dplNamespace = namespace c,
      dplLabels = GetObjectStoreLabels c store,
      dplOwnerReferences = GetOwnerReferencesForObjectStore c store,
      dplSelector = GetObjectStoreSelectorLabels c store,
      dplReplicas = Some 1,
      dplStrategy = ''Recreate'',
      dplTemplateLabels = GetObjectStoreSelectorLabels c store,
      dplContainers =
        [\<lparr>ctrName = ObjectStoreContainerName c,
          ctrImage = specImage (Spec store),
          ctrArgs = [''--rgw-backend-store'', ''sfs'', ''--debug-rgw'', debugRgwArg c,
                     ''--rgw_frontends'', rgwFrontendsArg c] @ domainNameArgs c store,
          ctrPorts = [(''s3'', ObjectStoreContainerPort c, ''TCP''),
                      (''status'', ObjectStoreStatusContainerPort c, ''TCP'')],
          ctrEnv = [(''RGW_S3GW_ENABLE_TELEMETRY'', ''true'')],
          ctrEnvFrom = env,
          ctrVolumeMounts = [(genVolumeMountName store, ''/data'')]\<rparr>,
         \<lparr>ctrName = ObjectStoreUIContainerName c,
          ctrImage = specUIImage (Spec store),
          ctrArgs = [],
          ctrPorts = [(''ui'', ObjectStoreUIContainerPort c, ''TCP'')],
          ctrEnv = [(''S3GW_SERVICE_URL'', s3gwServiceURL c),
                    (''S3GW_UI_PATH'', ''/objectstore/'' @ osName store),
                    (''S3GW_INSTANCE_ID'', osName store)],
          ctrEnvFrom = [],
          ctrVolumeMounts = []\<rparr>],
      dplVolumes = [(genVolumeMountName store, genPVCName store)],
      dplImagePullSecrets = imagePullSecrets,
      dplStatusReplicas = 0,
      dplAvailableReplicas = 0,
      dplUnavailableReplicas = 0\<rparr>"

text \<open>
  \<^verbatim>\<open>createDeployment\<close> reads the credential secret and the registry secret setting before
  it builds the deployment; a secret that is not found leaves \<^verbatim>\<open>EnvFrom\<close> empty.
\<close>

definition createDeployment ::
  "controller \<Rightarrow> objectStore \<Rightarrow> datastore \<Rightarrow> (err + deployment) \<times> datastore" where
  "createDeployment c store ds =
     (case GetSecret ds (namespace c) (specCredentialsName (Spec store)) of
        Inl e \<Rightarrow>
          if \<not> ErrorIsNotFound e
          then (Inl (Wrapped (''failed to find secret '' @ specCredentialsName (Spec store)) e), ds)
          else (case GetSetting ds of
                  Inl e' \<Rightarrow> (Inl (Wrapped
                    ''failed to get registry secret setting for object store deployment'' e'), ds)
                | Inr v \<Rightarrow> CreateDeployment ds
                    (newDeployment c store [] (if v \<noteq> [] then [v] else [])))
      | Inr sec \<Rightarrow>
          (case GetSetting ds of
             Inl e' \<Rightarrow> (Inl (Wrapped
               ''failed to get registry secret setting for object store deployment'' e'), ds)
           | Inr v \<Rightarrow> CreateDeployment ds
               (newDeployment c store [specCredentialsName (Spec store)]
                  (if v \<noteq> [] then [v] else []))))"

text \<open>The ingress that \<^verbatim>\<open>getOrCreateS3Endpoints\<close> builds for an endpoint that has none.\<close>

definition newIngress :: "controller \<Rightarrow> objectStore \<Rightarrow> objectStoreEndpointSpec \<Rightarrow> ingress" where
  "newIngress c store endpoint =
     (let s3backend = \<lparr>beServiceName = osName store, bePortName = ''s3''\<rparr>;
          baserule = \<lparr>irHost = epDomainName endpoint,
                      irPaths = [\<lparr>ipPath = ''/'', ipPathType = ''Prefix'',
                                  ipBackend = s3backend\<rparr>]\<rparr>;
          wildcardrule = \<lparr>irHost = ''*.'' @ epDomainName endpoint,
                          irPaths = [\<lparr>ipPath = ''/'', ipPathType = ''Prefix'',
                                      ipBackend = s3backend\<rparr>]\<rparr>
      in \<lparr>ingName = osName store @ ''-'' @ epName endpoint,
          ingNamespace = namespace c,
          ingLabels = GetObjectStoreLabels c store,
          ingOwnerReferences = GetOwnerReferencesForObjectStore c store,
          ingRules = [baserule, wildcardrule],
          ingTLS = (if epTLSName endpoint \<noteq> []
                    then [\<lparr>tlsSecretName = epTLSName endpoint,
                           tlsHosts = [epDomainName endpoint,
                                       ''*.'' @ epDomainName endpoint]\<rparr>]
                    else [])\<rparr>)"

subsubsection \<open>Get-or-create\<close>

definition getOrCreatePVC ::
  "controller \<Rightarrow> objectStore \<Rightarrow> datastore
     \<Rightarrow> (err + persistentVolumeClaim) \<times> objectStore \<times> datastore" where
  "getOrCreatePVC c store ds =
     (case GetPersistentVolumeClaim ds (namespace c) (genPVCName store) of
        Inr pvc \<Rightarrow> (Inr pvc, store, ds)
      | Inl e \<Rightarrow>
          if ErrorIsNotFound e
          then (case createPVC c store ds of
                  (Inl e', ds') \<Rightarrow>
                    (Inl (Wrapped ''failed to create persistent volume claim'' e'), store, ds')
                | (Inr pvc, ds') \<Rightarrow>
                    (Inr pvc,
                     (if State (Status store) \<noteq> Starting then setState Starting store
                      else store), ds'))
          else (Inl e, store, ds))"

definition getOrCreateVolume ::
  "controller \<Rightarrow> objectStore \<Rightarrow> persistentVolumeClaim \<Rightarrow> datastore
     \<Rightarrow> (err + volume) \<times> objectStore \<times> datastore" where
  "getOrCreateVolume c store pvc ds =
     (case GetVolume ds (genPVName store) of
        Inr vol \<Rightarrow> (Inr vol, store, ds)
      | Inl e \<Rightarrow>
          if ErrorIsNotFound e
          then (case createVolume c store pvc ds of
                  (Inl e', ds') \<Rightarrow>
                    (Inl (Wrapped ''failed to create longhorn volume'' e'), store, ds')
                | (Inr vol, ds') \<Rightarrow>
                    (Inr vol,
                     (if State (Status store) \<noteq> Starting then setState Starting store
                      else store), ds'))
          else (Inl e, store, ds))"

definition getOrCreatePV ::
  "controller \<Rightarrow> objectStore \<Rightarrow> volume \<Rightarrow> datastore
     \<Rightarrow> (err + persistentVolume) \<times> objectStore \<times> datastore" where
  "getOrCreatePV c store vol ds =
     (case GetPersistentVolume ds (genPVName store) of
        Inr pv \<Rightarrow> (Inr pv, store, ds)
      | Inl e \<Rightarrow>
          if ErrorIsNotFound e
          then (case createPV c store vol ds of
                  (Inl e', ds') \<Rightarrow>
                    (Inl (Wrapped ''failed to create persistent volume'' e'), store, ds')
                | (Inr pv, ds') \<Rightarrow>
                    (Inr pv,
                     (if State (Status store) \<noteq> Starting then setState Starting store
                      else store), ds'))
          else (Inl e, store, ds))"

definition getOrCreateDeployment ::
  "controller \<Rightarrow> objectStore \<Rightarrow> datastore \<Rightarrow> (err + deployment) \<times> objectStore \<times> datastore" where
  "getOrCreateDeployment c store ds =
     (case GetDeployment ds (osName store) of
        Inr dpl \<Rightarrow> (Inr dpl, store, ds)
      | Inl e \<Rightarrow>
          if ErrorIsNotFound e
          then (case createDeployment c store ds of
                  (Inl e', ds') \<Rightarrow>
                    (Inl (Wrapped ''failed to create deployment'' e'), store, ds')
                | (Inr dpl, ds') \<Rightarrow>
                    (Inr dpl,
                     (if State (Status store) \<noteq> Starting then setState Starting store
                      else store), ds'))
          else (Inl e, store, ds))"

definition getOrCreateService ::
  "controller \<Rightarrow> objectStore \<Rightarrow> datastore \<Rightarrow> (err + service) \<times> objectStore \<times> datastore" where
  "getOrCreateService c store ds =
     (case GetService ds (namespace c) (osName store) of
        Inr svc \<Rightarrow> (Inr svc, store, ds)
      | Inl e \<Rightarrow>
          if ErrorIsNotFound e
          then (case createService c store ds of
                  (Inl e', ds') \<Rightarrow>
                    (Inl (Wrapped ''failed to create service'' e'), store, ds')
                | (Inr svc, ds') \<Rightarrow>
                    (Inr svc,
                     (if State (Status store) \<noteq> Starting then setState Starting store
                      else store), ds'))
          else (Inl e, store, ds))"

text \<open>
  The loop of \<^verbatim>\<open>getOrCreateS3Endpoints\<close> over \<^verbatim>\<open>store.Spec.Endpoints\<close>: the endpoints
  still to visit, the ingresses collected so far, the object store and the datastore.
\<close>

fun s3EndpointsLoop ::
  "controller \<Rightarrow> objectStoreEndpointSpec list \<Rightarrow> ingress list \<Rightarrow> objectStore \<Rightarrow> datastore
     \<Rightarrow> (err + ingress list) \<times> objectStore \<times> datastore" where
  "s3EndpointsLoop c [] ingresses store ds = (Inr ingresses, store, ds)"
| "s3EndpointsLoop c (endpoint # rest) ingresses store ds =
     (case GetIngress ds (namespace c) (osName store @ ''-'' @ epName endpoint) of
        Inr ing \<Rightarrow> s3EndpointsLoop c rest (ingresses @ [ing]) store ds
      | Inl e \<Rightarrow>
          if ErrorIsNotFound e
          then (case CreateIngress ds (namespace c) (newIngress c store endpoint) of
                  (Inl e', ds') \<Rightarrow>
                    if \<not> ErrorIsAlreadyExists e'
                    then (Inl e', setState Error store, ds')
                    else s3EndpointsLoop c rest (ingresses @ [newIngress c store endpoint])
                           (appendEndpoint (epDomainName endpoint) store) ds'
                | (Inr created, ds') \<Rightarrow>
                    s3EndpointsLoop c rest (ingresses @ [newIngress c store endpoint])
                      (appendEndpoint (epDomainName endpoint) store) ds')
          else (Inl e, store, ds))"

definition getOrCreateS3Endpoints ::
  "controller \<Rightarrow> objectStore \<Rightarrow> datastore \<Rightarrow> (err + ingress list) \<times> objectStore \<times> datastore" where
  "getOrCreateS3Endpoints c store ds =
     s3EndpointsLoop c (specEndpoints (Spec store)) [] store ds"

subsubsection \<open>Health checks\<close>

definition checkPVC :: "persistentVolumeClaim \<Rightarrow> outcome" where
  "checkPVC pvc =
     (if pvcPhase pvc \<noteq> ClaimBound then Fail (New (''PVC '' @ pvcName pvc @ '' not bound''))
      else Ok)"

definition checkVolume :: "volume \<Rightarrow> outcome" where
  "checkVolume vol =
     (if volRobustness vol = Faulted then Fail (New (''volume '' @ volName vol @ '' has failed''))
      else Ok)"

definition checkPV :: "persistentVolume \<Rightarrow> outcome" where
  "checkPV pv =
     (if pvPhase pv \<noteq> VolumeBound then Fail (New (''PV '' @ pvName pv @ '' not bound''))
      else Ok)"

text \<open>
  The second half of \<^verbatim>\<open>checkDeployment\<close>: the image of one named container is compared
  with the wanted image and updated. It returns the error of the image helper, or the
  deployment, object store and datastore with which the check goes on.
\<close>

definition checkImage ::
  "controller \<Rightarrow> string \<Rightarrow> string \<Rightarrow> deployment \<Rightarrow> objectStore \<Rightarrow> datastore
     \<Rightarrow> err + deployment \<times> objectStore \<times> datastore" where
  "checkImage c name img dpl store ds =
     (if GetImageOfDeploymentContainerWithName c dpl name \<noteq> img
      then (case SetImageOfDeploymentContainerWithName c dpl name img of
              Inl e \<Rightarrow> Inl e
            | Inr dpl' \<Rightarrow> Inr (dpl', setState Starting store, snd (UpdateDeployment ds dpl')))
      else Inr (dpl, store, ds))"

definition checkDeployment ::
  "controller \<Rightarrow> deployment \<Rightarrow> objectStore \<Rightarrow> datastore \<Rightarrow> outcome \<times> objectStore \<times> datastore" where
  "checkDeployment c dpl store ds =
     (case dplReplicas dpl of
        None \<Rightarrow> (NilPanic, store, ds)
      | Some n \<Rightarrow>
          if n \<noteq> 1
          then (Fail (New ''deployment just scaled''), store,
                snd (UpdateDeployment ds (dpl\<lparr>dplReplicas := Some 1\<rparr>)))
          else if dplStatusReplicas dpl = 0 \<or> dplUnavailableReplicas dpl > 0
          then (Fail (New ''deployment not ready''), store, ds)
          else (case checkImage c (ObjectStoreContainerName c) (specImage (Spec store))
                       dpl store ds of
                  Inl e \<Rightarrow> (Fail e, store, ds)
                | Inr (dpl1, store1, ds1) \<Rightarrow>
                    (case checkImage c (ObjectStoreUIContainerName c) (specUIImage (Spec store1))
                            dpl1 store1 ds1 of
                       Inl e \<Rightarrow> (Fail e, store1, ds1)
                     | Inr (dpl2, store2, ds2) \<Rightarrow> (Ok, store2, ds2))))"

subsubsection \<open>State handlers\<close>

text \<open>
  The last part of \<^verbatim>\<open>handleStarting\<close>, after every resource has been found or created:
  the implicit cluster-internal endpoint, the four health checks and the transition to
  \<open>Running\<close>. A failed health check makes the handler return nil and wait.
\<close>

definition finishStarting ::
  "controller \<Rightarrow> persistentVolumeClaim \<Rightarrow> volume \<Rightarrow> persistentVolume \<Rightarrow> deployment
     \<Rightarrow> objectStore \<Rightarrow> datastore \<Rightarrow> outcome \<times> objectStore \<times> datastore" where
  "finishStarting c pvc vol pv dpl store0 ds =
     (let store = (if length (Endpoints (Status store0)) = 0
                   then appendEndpoint (osName store0 @ ''.'' @ namespace c @ ''.svc'') store0
                   else store0)
      in if checkPVC pvc \<noteq> Ok then (Ok, store, ds)
         else if checkVolume vol \<noteq> Ok then (Ok, store, ds)
         else if checkPV pv \<noteq> Ok then (Ok, store, ds)
         else (case checkDeployment c dpl store ds of
                 (NilPanic, store', ds') \<Rightarrow> (NilPanic, store', ds')
               | (Fail e, store', ds') \<Rightarrow> (Ok, store', ds')
               | (Ok, store', ds') \<Rightarrow> (Ok, setState Running store', ds')))"

definition handleStarting ::
  "controller \<Rightarrow> objectStore \<Rightarrow> datastore \<Rightarrow> outcome \<times> objectStore \<times> datastore" where
  "handleStarting c store0 ds0 =
     (case getOrCreatePVC c store0 ds0 of
        (Inl e, store1, ds1) \<Rightarrow> (Fail (Wrapped ''API error while creating pvc'' e), store1, ds1)
      | (Inr pvc, store1, ds1) \<Rightarrow>
     (case getOrCreateVolume c store1 pvc ds1 of
        (Inl e, store2, ds2) \<Rightarrow>
          (Fail (Wrapped ''API error while creating volume'' e), store2, ds2)
      | (Inr vol, store2, ds2) \<Rightarrow>
     (case getOrCreatePV c store2 vol ds2 of
        (Inl e, store3, ds3) \<Rightarrow>
          (Fail (Wrapped ''API error while creating volume'' e), store3, ds3)
      | (Inr pv, store3, ds3) \<Rightarrow>
     (case getOrCreateDeployment c store3 ds3 of
        (Inl e, store4, ds4) \<Rightarrow>
          (Fail (Wrapped ''API error while creating deployment'' e), store4, ds4)
      | (Inr dpl, store4, ds4) \<Rightarrow>
     (case getOrCreateService c store4 ds4 of
        (Inl e, store5, ds5) \<Rightarrow>
          (Fail (Wrapped ''API error while creating service'' e), store5, ds5)
      | (Inr svc, store5, ds5) \<Rightarrow>
     (case getOrCreateS3Endpoints c store5 ds5 of
        (Inl e, store6, ds6) \<Rightarrow>
          (Fail (Wrapped ''API error while creating S3 ingresses'' e), store6, ds6)
      | (Inr endpoints, store6, ds6) \<Rightarrow>
          finishStarting c pvc vol pv dpl store6 ds6))))))"

definition handleRunning ::
  "controller \<Rightarrow> objectStore \<Rightarrow> datastore \<Rightarrow> outcome \<times> objectStore \<times> datastore" where
  "handleRunning c store ds =
     (if specTargetState (Spec store) = Stopped then (Ok, setState Stopping store, ds)
      else
     (case GetDeployment ds (osName store) of
        Inl e \<Rightarrow> (Fail (Wrapped (''failed to find deployment '' @ osName store) e),
                  setState Error store, ds)
      | Inr dpl \<Rightarrow>
     (case checkDeployment c dpl store ds of
        (NilPanic, store1, ds1) \<Rightarrow> (NilPanic, store1, ds1)
      | (Fail e, store1, ds1) \<Rightarrow> (Fail e, setState Error store1, ds1)
      | (Ok, store1, ds1) \<Rightarrow>
     (case GetService ds1 (namespace c) (osName store1) of
        Inl e \<Rightarrow> (Fail (Wrapped (''failed to find service '' @ osName store1) e),
                  setState Error store1, ds1)
      | Inr svc \<Rightarrow>
     (case GetPersistentVolumeClaim ds1 (namespace c) (genPVCName store1) of
        Inl e \<Rightarrow> (Fail (Wrapped (''failed to find pvc '' @ genPVCName store1) e),
                  setState Error store1, ds1)
      | Inr pvc \<Rightarrow>
     (case checkPVC pvc of
        Fail e \<Rightarrow> (Fail e, setState Error store1, ds1)
      | _ \<Rightarrow>
     (case GetVolume ds1 (genPVName store1) of
        Inl e \<Rightarrow> (Fail (Wrapped (''failed to find volume '' @ genPVName store1) e),
                  setState Error store1, ds1)
      | Inr vol \<Rightarrow>
     (case checkVolume vol of
        Fail e \<Rightarrow> (Fail e, setState Error store1, ds1)
      | _ \<Rightarrow>
     (case GetPersistentVolume ds1 (genPVName store1) of
        Inl e \<Rightarrow> (Fail (Wrapped (''failed to find PV '' @ genPVName store1) e),
                  setState Error store1, ds1)
      | Inr pv \<Rightarrow>
     (case checkPV pv of
        Fail e \<Rightarrow> (Fail e, setState Error store1, ds1)
      | _ \<Rightarrow> (Ok, store1, ds1)))))))))))"

text \<open>
  \<^verbatim>\<open>handleStopping\<close> returns the error of the scale-down update, if there is one.
\<close>

definition handleStopping ::
  "controller \<Rightarrow> objectStore \<Rightarrow> datastore \<Rightarrow> outcome \<times> objectStore \<times> datastore" where
  "handleStopping c store ds =
     (case GetDeployment ds (osName store) of
        Inl e \<Rightarrow> (Fail (Wrapped ''failed find Deployment to stop'' e), setState Error store, ds)
      | Inr dpl \<Rightarrow>
          if dplReplicas dpl \<noteq> None \<and> dplReplicas dpl \<noteq> Some 0
          then (case UpdateDeployment ds (dpl\<lparr>dplReplicas := Some 0\<rparr>) of
                  (Inl e, ds') \<Rightarrow> (Fail e, store, ds')
                | (Inr updated, ds') \<Rightarrow> (Ok, store, ds'))
          else if dplAvailableReplicas dpl > 0 then (Ok, store, ds)
          else (Ok, setState Stopped store, ds))"

definition handleStopped ::
  "controller \<Rightarrow> objectStore \<Rightarrow> datastore \<Rightarrow> outcome \<times> objectStore \<times> datastore" where
  "handleStopped c store ds =
     (if specTargetState (Spec store) = Running then (Ok, setState Starting store, ds)
      else (Ok, store, ds))"

text \<open>
  In \<^verbatim>\<open>handleTerminating\<close> every lookup that does not fail with not-found ends the
  handler with the lookup's error, which is nil when the resource was found.
\<close>

definition handleTerminating ::
  "controller \<Rightarrow> objectStore \<Rightarrow> datastore \<Rightarrow> outcome \<times> objectStore \<times> datastore" where
  "handleTerminating c store ds =
     (if length (osFinalizers store) \<noteq> 0
      then (case RemoveFinalizerForObjectStore ds store of (r, ds') \<Rightarrow> (r, store, ds'))
      else
     (case GetService ds (namespace c) (osName store) of
        Inr svc \<Rightarrow> (Ok, store, ds)
      | Inl e \<Rightarrow> if \<not> ErrorIsNotFound e then (Fail e, store, ds) else
     (case GetDeployment ds (osName store) of
        Inr dpl \<Rightarrow> (Ok, store, ds)
      | Inl e \<Rightarrow> if \<not> ErrorIsNotFound e then (Fail e, store, ds) else
     (case GetPersistentVolumeClaim ds (namespace c) (genPVCName store) of
        Inr pvc \<Rightarrow> (Ok, store, ds)
      | Inl e \<Rightarrow> if \<not> ErrorIsNotFound e then (Fail e, store, ds) else
     (case GetPersistentVolume ds (genPVName store) of
        Inr pv \<Rightarrow> (Ok, store, ds)
      | Inl e \<Rightarrow> if \<not> ErrorIsNotFound e then (Fail e, store, ds) else
     (case GetVolume ds (genPVName store) of
        Inr vol \<Rightarrow> (Ok, store, ds)
      | Inl e \<Rightarrow> if \<not> ErrorIsNotFound e then (Fail e, store, ds)
                 else (Ok, store, ds)))))))"

definition initializeObjectStore ::
  "controller \<Rightarrow> objectStore \<Rightarrow> datastore \<Rightarrow> outcome \<times> objectStore \<times> datastore" where
  "initializeObjectStore c store ds =
     (if \<not> (specTargetState (Spec store) = Stopped) then (Ok, setState Starting store, ds)
      else (Ok, store, ds))"

subsubsection \<open>Responsibility and the reconcile entry point\<close>

definition isResponsibleFor :: "controller \<Rightarrow> datastore \<Rightarrow> objectStore \<Rightarrow> bool" where
  "isResponsibleFor c ds store =
     (case GetVolumeRO ds (genPVName store) of
        Inl e \<Rightarrow> if ErrorIsNotFound e then True else False
      | Inr vol \<Rightarrow> controllerID c = volOwnerID vol)"

text \<open>
  The body of \<^verbatim>\<open>reconcile\<close> under the deferred status write: the termination path, or
  the handler of the current state.
\<close>

definition dispatch ::
  "controller \<Rightarrow> objectStore \<Rightarrow> datastore \<Rightarrow> outcome \<times> objectStore \<times> datastore" where
  "dispatch c store ds =
     (if osDeletionTimestamp store \<noteq> None
      then (if State (Status store) \<noteq> Terminating then (Ok, setState Terminating store, ds)
            else handleTerminating c store ds)
      else (case State (Status store) of
              Starting \<Rightarrow> handleStarting c store ds
            | Error \<Rightarrow> handleStarting c store ds
            | Running \<Rightarrow> handleRunning c store ds
            | Stopping \<Rightarrow> handleStopping c store ds
            | Stopped \<Rightarrow> handleStopped c store ds
            | _ \<Rightarrow> initializeObjectStore c store ds))"

text \<open>
  The deferred function of \<^verbatim>\<open>reconcile\<close>: it compares the status with the copy taken
  before the handler ran and writes the status when they differ. It assigns the result of
  the write to local variables only, so the error of the write is lost, and it also runs
  when the handler panics.
\<close>

definition deferredStatusUpdate :: "objectStore \<Rightarrow> objectStore \<Rightarrow> datastore \<Rightarrow> datastore" where
  "deferredStatusUpdate existingStore store ds =
     (if Status existingStore = Status store then ds
      else snd (UpdateObjectStoreStatus ds store))"

definition reconcile :: "controller \<Rightarrow> datastore \<Rightarrow> string \<Rightarrow> outcome \<times> datastore" where
  "reconcile c ds key =
     (case SplitMetaNamespaceKey key of
        Inl e \<Rightarrow> (Fail e, ds)
      | Inr (ns, name) \<Rightarrow>
          (case GetObjectStore ds name of
             Inl e \<Rightarrow> if ErrorIsNotFound e then (Ok, ds) else (Fail e, ds)
           | Inr store \<Rightarrow>
               if \<not> isResponsibleFor c ds store then (Ok, ds)
               else (case dispatch c store ds of
                       (r, store', ds') \<Rightarrow> (r, deferredStatusUpdate store store' ds'))))"

subsection \<open>Counting status writes\<close>

fun isStatusWrite :: "action \<Rightarrow> bool" where
  "isStatusWrite (AUpdateObjectStoreStatus store) = True"
| "isStatusWrite _ = False"

definition statusWrites :: "datastore \<Rightarrow> nat" where
  "statusWrites ds = length (filter isStatusWrite (dsActions ds))"

subsection \<open>Relations between the datastore before and after a call\<close>

text \<open>
  \<open>writesLogged ds ds'\<close>: going from \<open>ds\<close> to \<open>ds'\<close>, no status write was issued, and
  either nothing changed or a write call was added to the log.
  \<open>writesLoggedClaimsKept\<close> says in addition that the table of storage claims is the same.
\<close>

definition writesLogged :: "datastore \<Rightarrow> datastore \<Rightarrow> bool" where
  "writesLogged ds ds' \<longleftrightarrow>
     statusWrites ds' = statusWrites ds \<and>
     (ds' = ds \<or> length (dsActions ds) < length (dsActions ds'))"

definition writesLoggedClaimsKept :: "datastore \<Rightarrow> datastore \<Rightarrow> bool" where
  "writesLoggedClaimsKept ds ds' \<longleftrightarrow>
     writesLogged ds ds' \<and> dsPersistentVolumeClaims ds' = dsPersistentVolumeClaims ds"

subsection \<open>Example objects\<close>

text \<open>
  The objects of the controller's unit tests: a controller, an object store, and a
  datastore that holds nothing and answers every write without error. The image helpers
  of the example controller look the container up by its name in the deployment.
\<close>

fun getImageOfContainers :: "container list \<Rightarrow> string \<Rightarrow> string" where
  "getImageOfContainers [] name = []"
| "getImageOfContainers (ctr # ctrs) name =
     (if ctrName ctr = name then ctrImage ctr else getImageOfContainers ctrs name)"

fun setImageOfContainers :: "container list \<Rightarrow> string \<Rightarrow> string \<Rightarrow> container list option" where
  "setImageOfContainers [] name img = None"
| "setImageOfContainers (ctr # ctrs) name img =
     (if ctrName ctr = name then Some (ctr\<lparr>ctrImage := img\<rparr> # ctrs)
      else map_option ((#) ctr) (setImageOfContainers ctrs name img))"

definition TestObjectStoreController :: controller where
  "TestObjectStoreController =
     \<lparr>controllerID = ''test-objecte-store-controller'',
      namespace = ''default'',
      ObjectStoreContainerName = ''s3gw'',
      ObjectStoreUIContainerName = ''s3gw-ui'',
      ObjectStoreStorageClassName = ''longhorn-objectstore'',
      ObjectStoreContainerPort = 7480,
      ObjectStoreUIContainerPort = 8080,
      ObjectStoreStatusContainerPort = 9090,
      ObjectStoreServicePort = 80,
      ObjectStoreUIServicePort = 8080,
      ObjectStoreStatusServicePort = 9090,
      LonghornAnnotationObjectStoreName = ''longhorn.io/object-store-name'',
      debugRgwArg = ''1'',
      rgwFrontendsArg = ''beast port=7480, status port=9090'',
      s3gwServiceURL = ''http://127.0.0.1:7480'',
      GetObjectStoreLabels = (\<lambda>store. [(''longhorn.io/object-store'', osName store)]),
      GetObjectStoreSelectorLabels = (\<lambda>store. [(''longhorn.io/object-store'', osName store)]),
      GetOwnerReferencesForObjectStore = (\<lambda>store. [(''ObjectStore'', osName store)]),
      GetOwnerReferencesForPVC = (\<lambda>pvc. [(''PersistentVolumeClaim'', pvcName pvc)]),
      GetImageOfDeploymentContainerWithName =
        (\<lambda>dpl name. getImageOfContainers (dplContainers dpl) name),
      SetImageOfDeploymentContainerWithName =
        (\<lambda>dpl name img.
           case setImageOfContainers (dplContainers dpl) name img of
             None \<Rightarrow> Inl (New (''could not find container '' @ name))
           | Some ctrs \<Rightarrow> Inr (dpl\<lparr>dplContainers := ctrs\<rparr>))\<rparr>"

definition osTestNewObjectStore :: objectStore where
  "osTestNewObjectStore =
     \<lparr>osName = ''test-object-store'',
      osDeletionTimestamp = None,
      osFinalizers = [],
      Spec = \<lparr>specSize = 10737418240,
              specImage = ''quay.io/s3gw/s3gw:latest'',
              specUIImage = ''quay.io/s3gw/s3gw-ui:latest'',
              specCredentialsName = ''test-secret'',
              specTargetState = StateNone,
              specEndpoints = [],
              specVolumeParameters =
                \<lparr>vpNumberOfReplicas = 3,
                 vpReplicaSoftAntiAffinity = [],
                 vpReplicaZoneSoftAntiAffinity = [],
                 vpReplicaDiskSoftAntiAffinity = [],
                 vpDiskSelector = [],
                 vpNodeSelector = [],
                 vpDataLocality = [],
                 vpFromBackup = [],
                 vpStaleReplicaTimeout = 0,
                 vpReplicaAutoBalance = [],
                 vpRevisionCounterDisabled = False,
                 vpUnmapMarkSnapChainRemoved = [],
                 vpBackendStoreDriver = []\<rparr>\<rparr>,
      Status = \<lparr>State = StateNone, Endpoints = []\<rparr>\<rparr>"

definition newFixture :: datastore where
  "newFixture =
     \<lparr>dsObjectStores = (\<lambda>name. Inl NotFound),
      dsPersistentVolumeClaims = (\<lambda>name. Inl NotFound),
      dsVolumes = (\<lambda>name. Inl NotFound),
      dsPersistentVolumes = (\<lambda>name. Inl NotFound),
      dsDeployments = (\<lambda>name. Inl NotFound),
      dsServices = (\<lambda>name. Inl NotFound),
      dsIngresses = (\<lambda>name. Inl NotFound),
      dsSecrets = (\<lambda>name. Inl NotFound),
      dsRegistrySecretSetting = Inr [],
      dsFault = (\<lambda>a. None),
      dsActions = []\<rparr>"

definition withObjectStore :: "objectStore \<Rightarrow> datastore \<Rightarrow> datastore" where
  "withObjectStore store ds =
     ds\<lparr>dsObjectStores := (dsObjectStores ds)(osName store := Inr store)\<rparr>"

definition withDeployment :: "deployment \<Rightarrow> datastore \<Rightarrow> datastore" where
  "withDeployment dpl ds = ds\<lparr>dsDeployments := (dsDeployments ds)(dplName dpl := Inr dpl)\<rparr>"

definition withVolume :: "volume \<Rightarrow> datastore \<Rightarrow> datastore" where
  "withVolume vol ds = ds\<lparr>dsVolumes := (dsVolumes ds)(volName vol := Inr vol)\<rparr>"

definition withService :: "service \<Rightarrow> datastore \<Rightarrow> datastore" where
  "withService svc ds = ds\<lparr>dsServices := (dsServices ds)(svcName svc := Inr svc)\<rparr>"

definition withPVC :: "persistentVolumeClaim \<Rightarrow> datastore \<Rightarrow> datastore" where
  "withPVC pvc ds =
     ds\<lparr>dsPersistentVolumeClaims := (dsPersistentVolumeClaims ds)(pvcName pvc := Inr pvc)\<rparr>"

definition withPV :: "persistentVolume \<Rightarrow> datastore \<Rightarrow> datastore" where
  "withPV pv ds =
     ds\<lparr>dsPersistentVolumes := (dsPersistentVolumes ds)(pvName pv := Inr pv)\<rparr>"

definition TestKey :: string where
  "TestKey = ''default/test-object-store''"

definition osTestNewLonghornVolume :: volume where
  "osTestNewLonghornVolume =
     \<lparr>volName = ''pv-test-object-store'',
      volNamespace = ''default'',
      volLabels = [],
      volAnnotations = [],
      volOwnerReferences = [],
      volSize = 10737418240,
      volFrontend = ''blockdev'',
      volAccessMode = ''rwo'',
      volParameters = specVolumeParameters (Spec osTestNewObjectStore),
      volRobustness = Healthy,
      volOwnerID = ''test-objecte-store-controller''\<rparr>"

definition osTestNewPersistentVolumeClaim :: persistentVolumeClaim where
  "osTestNewPersistentVolumeClaim =
     \<lparr>pvcName = ''pvc-test-object-store'',
      pvcNamespace = ''default'',
      pvcLabels = [],
      pvcOwnerReferences = [],
      pvcAccessModes = [''ReadWriteOnce''],
      pvcRequestsStorage = 10737418240,
      pvcStorageClassName = Some [],
      pvcVolumeName = ''pv-test-object-store'',
      pvcPhase = ClaimNoPhase\<rparr>"

definition osTestNewPersistentVolume :: persistentVolume where
  "osTestNewPersistentVolume =
     (newPV TestObjectStoreController osTestNewObjectStore osTestNewLonghornVolume)
       \<lparr>pvPhase := VolumeBound\<rparr>"

definition osTestNewService :: service where
  "osTestNewService =
     \<lparr>svcName = ''test-object-store'',
      svcNamespace = ''default'',
      svcLabels = [],
      svcOwnerReferences = [],
      svcSelector = [],
      svcPorts = []\<rparr>"

definition osTestNewDeployment :: deployment where
  "osTestNewDeployment =
     \<lparr>dplName = ''test-object-store'',
      dplNamespace = ''default'',
      dplLabels = [],
      dplOwnerReferences = [],
      dplSelector = [],
      dplReplicas = None,
      dplStrategy = [],
      dplTemplateLabels = [],
      dplContainers = [],
      dplVolumes = [],
      dplImagePullSecrets = [],
      dplStatusReplicas = 0,
      dplAvailableReplicas = 0,
      dplUnavailableReplicas = 0\<rparr>"

text \<open>A datastore in which the five dependent resources of the test object store exist.\<close>

definition deployedFixture :: datastore where
  "deployedFixture =
     withPVC osTestNewPersistentVolumeClaim
       (withVolume osTestNewLonghornVolume
          (withPV osTestNewPersistentVolume
             (withDeployment osTestNewDeployment
                (withService osTestNewService newFixture))))"

text \<open>A datastore in which every lookup of a dependent resource fails with an API error.\<close>

definition brokenFixture :: datastore where
  "brokenFixture =
     newFixture
       \<lparr>dsPersistentVolumeClaims := (\<lambda>name. Inl (ApiError ''timeout'')),
        dsVolumes := (\<lambda>name. Inl (ApiError ''timeout'')),
        dsPersistentVolumes := (\<lambda>name. Inl (ApiError ''timeout'')),
        dsDeployments := (\<lambda>name. Inl (ApiError ''timeout'')),
        dsServices := (\<lambda>name. Inl (ApiError ''timeout''))\<rparr>"

text \<open>
  The test object store in state \<open>Running\<close>, and a datastore in which it and its five
  dependent resources exist and are healthy.
\<close>

definition osTestRunningObjectStore :: objectStore where
  "osTestRunningObjectStore =
     osTestNewObjectStore
       \<lparr>Status := \<lparr>State = Running, Endpoints = [''test-object-store.default.svc'']\<rparr>\<rparr>"

definition osTestReadyDeployment :: deployment where
  "osTestReadyDeployment =
     (newDeployment TestObjectStoreController osTestNewObjectStore [] [])
       \<lparr>dplStatusReplicas := 1, dplAvailableReplicas := 1\<rparr>"

definition runningFixture :: datastore where
  "runningFixture =
     withObjectStore osTestRunningObjectStore
       (withPVC (osTestNewPersistentVolumeClaim\<lparr>pvcPhase := ClaimBound\<rparr>)
          (withVolume osTestNewLonghornVolume
             (withPV osTestNewPersistentVolume
                (withDeployment osTestReadyDeployment
                   (withService osTestNewService newFixture)))))"

text \<open>The test object store in state \<open>Stopping\<close>, as in \<^verbatim>\<open>TestSyncStoppingObjectStore\<close>.\<close>

definition osTestStoppingObjectStore :: objectStore where
  "osTestStoppingObjectStore =
     osTestNewObjectStore
       \<lparr>Status := \<lparr>State = Stopping, Endpoints = [''test-object-store.default.svc'']\<rparr>\<rparr>"

definition stoppingFixture :: "deployment \<Rightarrow> datastore" where
  "stoppingFixture dpl =
     withObjectStore osTestStoppingObjectStore (withDeployment dpl newFixture)"

text \<open>
  The test object store marked for deletion, without finalizers and in state
  \<open>Terminating\<close>, in a datastore in which its service still exists.
\<close>

definition osTestTerminatingObjectStore :: objectStore where
  "osTestTerminatingObjectStore =
     osTestNewObjectStore
       \<lparr>osDeletionTimestamp := Some 1,
        Status := \<lparr>State = Terminating, Endpoints = [''test-object-store.default.svc'']\<rparr>\<rparr>"

definition terminatingFixture :: datastore where
  "terminatingFixture =
     withObjectStore osTestTerminatingObjectStore (withService osTestNewService newFixture)"

text \<open>The running test object store after its spec was given another image.\<close>

definition osTestUpgradedObjectStore :: objectStore where
  "osTestUpgradedObjectStore =
     osTestRunningObjectStore
       \<lparr>Spec := (Spec osTestNewObjectStore)\<lparr>specImage := ''quay.io/s3gw/s3gw:v0.23.0''\<rparr>\<rparr>"

text \<open>The test object store with one public endpoint that has a TLS secret.\<close>

definition osTestPublicEndpoint :: objectStoreEndpointSpec where
  "osTestPublicEndpoint =
     \<lparr>epName = ''public'', epDomainName = ''s3.example.com'', epTLSName = ''s3-tls''\<rparr>"

definition osTestPublicObjectStore :: objectStore where
  "osTestPublicObjectStore =
     osTestNewObjectStore
       \<lparr>Spec := (Spec osTestNewObjectStore)\<lparr>specEndpoints := [osTestPublicEndpoint]\<rparr>,
        Status := \<lparr>State = Starting, Endpoints = []\<rparr>\<rparr>"

text \<open>
  The test object store in state \<open>Stopped\<close> with target state \<open>Running\<close>, in the datastore
  in which all its dependent resources exist and are healthy.
\<close>

definition osTestStoppedObjectStore :: objectStore where
  "osTestStoppedObjectStore =
     osTestNewObjectStore
       \<lparr>Spec := (Spec osTestNewObjectStore)\<lparr>specTargetState := Running\<rparr>,
        Status := \<lparr>State = Stopped, Endpoints = [''test-object-store.default.svc'']\<rparr>\<rparr>"

definition stoppedFixture :: datastore where
  "stoppedFixture = withObjectStore osTestStoppedObjectStore runningFixture"

text \<open>
  The datastore of \<^verbatim>\<open>TestSyncNewObjectStore\<close>: the new object store and nothing else.
\<close>

definition freshFixture :: datastore where
  "freshFixture = withObjectStore osTestNewObjectStore newFixture"

section \<open>Properties\<close>

subsection \<open>Basic facts\<close>

lemmas fixture_defs = newFixture_def deployedFixture_def brokenFixture_def withPVC_def
  withVolume_def withPV_def withDeployment_def withService_def withObjectStore_def
  osTestNewObjectStore_def osTestNewPersistentVolumeClaim_def osTestNewLonghornVolume_def
  osTestNewPersistentVolume_def osTestNewService_def osTestNewDeployment_def

lemmas get_defs = GetObjectStore_def GetPersistentVolumeClaim_def GetVolume_def
  GetVolumeRO_def GetPersistentVolume_def GetDeployment_def GetService_def GetIngress_def
  GetSecret_def GetSetting_def

lemmas create_defs = CreatePersistentVolumeClaim_def CreateVolume_def
  CreatePersistentVolume_def CreateDeployment_def CreateService_def CreateIngress_def

lemma TestKey_split: "SplitMetaNamespaceKey TestKey = Inr (''default'', ''test-object-store'')"
  by (simp add: TestKey_def SplitMetaNamespaceKey_def)

lemma reconcile_found:
  assumes "SplitMetaNamespaceKey key = Inr (ns, name)"
    and "GetObjectStore ds name = Inr store"
    and "isResponsibleFor c ds store"
  shows "reconcile c ds key =
           (fst (dispatch c store ds),
            deferredStatusUpdate store (fst (snd (dispatch c store ds)))
              (snd (snd (dispatch c store ds))))"
  using assms by (simp add: reconcile_def split: prod.splits)

lemma setState_simps [simp]:
  "State (Status (setState st store)) = st"
  "Endpoints (Status (setState st store)) = Endpoints (Status store)"
  "osName (setState st store) = osName store"
  "osDeletionTimestamp (setState st store) = osDeletionTimestamp store"
  "osFinalizers (setState st store) = osFinalizers store"
  "Spec (setState st store) = Spec store"
  by (simp_all add: setState_def)

lemma Status_setState: "Status (setState st store) = (Status store)\<lparr>State := st\<rparr>"
  by (simp add: setState_def)

lemma setState_same: "State (Status store) = st \<Longrightarrow> setState st store = store"
  by (simp add: setState_def)

lemma appendEndpoint_simps [simp]:
  "State (Status (appendEndpoint e store)) = State (Status store)"
  "Endpoints (Status (appendEndpoint e store)) = Endpoints (Status store) @ [e]"
  "osName (appendEndpoint e store) = osName store"
  "osDeletionTimestamp (appendEndpoint e store) = osDeletionTimestamp store"
  "osFinalizers (appendEndpoint e store) = osFinalizers store"
  "Spec (appendEndpoint e store) = Spec store"
  by (simp_all add: appendEndpoint_def)

lemma record_action_simps [simp]:
  "dsObjectStores (record_action a ds) = dsObjectStores ds"
  "dsPersistentVolumeClaims (record_action a ds) = dsPersistentVolumeClaims ds"
  "dsVolumes (record_action a ds) = dsVolumes ds"
  "dsPersistentVolumes (record_action a ds) = dsPersistentVolumes ds"
  "dsDeployments (record_action a ds) = dsDeployments ds"
  "dsServices (record_action a ds) = dsServices ds"
  "dsIngresses (record_action a ds) = dsIngresses ds"
  "dsSecrets (record_action a ds) = dsSecrets ds"
  "dsRegistrySecretSetting (record_action a ds) = dsRegistrySecretSetting ds"
  "dsFault (record_action a ds) = dsFault ds"
  "dsActions (record_action a ds) = dsActions ds @ [a]"
  by (simp_all add: record_action_def)

lemma UpdateDeployment_frame [simp]:
  "dsObjectStores (snd (UpdateDeployment ds dpl)) = dsObjectStores ds"
  "dsPersistentVolumeClaims (snd (UpdateDeployment ds dpl)) = dsPersistentVolumeClaims ds"
  "dsVolumes (snd (UpdateDeployment ds dpl)) = dsVolumes ds"
  "dsPersistentVolumes (snd (UpdateDeployment ds dpl)) = dsPersistentVolumes ds"
  "dsServices (snd (UpdateDeployment ds dpl)) = dsServices ds"
  "dsIngresses (snd (UpdateDeployment ds dpl)) = dsIngresses ds"
  "dsSecrets (snd (UpdateDeployment ds dpl)) = dsSecrets ds"
  "dsRegistrySecretSetting (snd (UpdateDeployment ds dpl)) = dsRegistrySecretSetting ds"
  "dsFault (snd (UpdateDeployment ds dpl)) = dsFault ds"
  "dsActions (snd (UpdateDeployment ds dpl)) = dsActions ds @ [AUpdateDeployment dpl]"
  by (simp_all add: UpdateDeployment_def split: option.splits)

lemma checkImage_frame:
  assumes "checkImage c name img dpl store ds = Inr (dpl', store', ds')"
  shows "osName store' = osName store \<and> Spec store' = Spec store \<and>
         osDeletionTimestamp store' = osDeletionTimestamp store \<and>
         dsObjectStores ds' = dsObjectStores ds \<and>
         dsPersistentVolumeClaims ds' = dsPersistentVolumeClaims ds \<and>
         dsVolumes ds' = dsVolumes ds \<and>
         dsPersistentVolumes ds' = dsPersistentVolumes ds \<and>
         dsServices ds' = dsServices ds"
  using assms by (auto simp add: checkImage_def split: if_splits sum.splits)


lemma check_outcomes [simp]:
  "checkPVC pvc \<noteq> NilPanic" "checkVolume vol \<noteq> NilPanic" "checkPV pv \<noteq> NilPanic"
  by (simp_all add: checkPVC_def checkVolume_def checkPV_def)

lemma fixture_names [simp]:
  "osName osTestRunningObjectStore = ''test-object-store''"
  "osName osTestNewObjectStore = ''test-object-store''"
  "genPVName osTestRunningObjectStore = ''pv-test-object-store''"
  "genPVCName osTestRunningObjectStore = ''pvc-test-object-store''"
  "genPVName osTestNewObjectStore = ''pv-test-object-store''"
  "genPVCName osTestNewObjectStore = ''pvc-test-object-store''"
  "namespace TestObjectStoreController = ''default''"
  "controllerID TestObjectStoreController = ''test-objecte-store-controller''"
  "pvcName osTestNewPersistentVolumeClaim = ''pvc-test-object-store''"
  "volName osTestNewLonghornVolume = ''pv-test-object-store''"
  "pvName osTestNewPersistentVolume = ''pv-test-object-store''"
  "dplName osTestReadyDeployment = ''test-object-store''"
  "dplName osTestNewDeployment = ''test-object-store''"
  "svcName osTestNewService = ''test-object-store''"
  by (simp_all add: osTestNewPersistentVolumeClaim_def osTestNewLonghornVolume_def
      osTestNewPersistentVolume_def osTestReadyDeployment_def osTestNewDeployment_def
      osTestNewService_def newPV_def newDeployment_def osTestRunningObjectStore_def
      osTestNewObjectStore_def genPVName_def genPVCName_def TestObjectStoreController_def)

lemma fixture_fields [simp]:
  "osDeletionTimestamp osTestRunningObjectStore = None"
  "osFinalizers osTestRunningObjectStore = []"
  "Status osTestRunningObjectStore
     = \<lparr>State = Running, Endpoints = [''test-object-store.default.svc'']\<rparr>"
  "Spec osTestRunningObjectStore = Spec osTestNewObjectStore"
  "osDeletionTimestamp osTestNewObjectStore = None"
  "osFinalizers osTestNewObjectStore = []"
  "Status osTestNewObjectStore = \<lparr>State = StateNone, Endpoints = []\<rparr>"
  "specTargetState (Spec osTestNewObjectStore) = StateNone"
  "specImage (Spec osTestNewObjectStore) = ''quay.io/s3gw/s3gw:latest''"
  "specUIImage (Spec osTestNewObjectStore) = ''quay.io/s3gw/s3gw-ui:latest''"
  "specEndpoints (Spec osTestNewObjectStore) = []"
  "volOwnerID osTestNewLonghornVolume = ''test-objecte-store-controller''"
  "volRobustness osTestNewLonghornVolume = Healthy"
  "pvPhase osTestNewPersistentVolume = VolumeBound"
  "pvcPhase osTestNewPersistentVolumeClaim = ClaimNoPhase"
  by (simp_all add: osTestRunningObjectStore_def osTestNewObjectStore_def
      osTestNewLonghornVolume_def osTestNewPersistentVolume_def
      osTestNewPersistentVolumeClaim_def)

lemma fixture_fields2 [simp]:
  "osName osTestStoppingObjectStore = ''test-object-store''"
  "genPVName osTestStoppingObjectStore = ''pv-test-object-store''"
  "genPVCName osTestStoppingObjectStore = ''pvc-test-object-store''"
  "osDeletionTimestamp osTestStoppingObjectStore = None"
  "Status osTestStoppingObjectStore
     = \<lparr>State = Stopping, Endpoints = [''test-object-store.default.svc'']\<rparr>"
  "Spec osTestStoppingObjectStore = Spec osTestNewObjectStore"
  "osName osTestTerminatingObjectStore = ''test-object-store''"
  "genPVName osTestTerminatingObjectStore = ''pv-test-object-store''"
  "genPVCName osTestTerminatingObjectStore = ''pvc-test-object-store''"
  "osDeletionTimestamp osTestTerminatingObjectStore = Some 1"
  "osFinalizers osTestTerminatingObjectStore = []"
  "Status osTestTerminatingObjectStore
     = \<lparr>State = Terminating, Endpoints = [''test-object-store.default.svc'']\<rparr>"
  "dplReplicas osTestNewDeployment = None"
  "dplAvailableReplicas osTestNewDeployment = 0"
  by (simp_all add: osTestStoppingObjectStore_def osTestTerminatingObjectStore_def
      osTestNewObjectStore_def genPVName_def genPVCName_def osTestNewDeployment_def)

lemma stoppingFixture_lookups:
  "dplName dpl = ''test-object-store''
     \<Longrightarrow> GetDeployment (stoppingFixture dpl) ''test-object-store'' = Inr dpl"
  "GetObjectStore (stoppingFixture dpl) ''test-object-store'' = Inr osTestStoppingObjectStore"
  "GetVolumeRO (stoppingFixture dpl) name = Inl NotFound"
  "dsFault (stoppingFixture dpl) a = None"
  by (simp_all add: get_defs stoppingFixture_def withObjectStore_def withDeployment_def
      newFixture_def)

lemma terminatingFixture_lookups:
  "GetObjectStore terminatingFixture ''test-object-store'' = Inr osTestTerminatingObjectStore"
  "GetService terminatingFixture ''default'' ''test-object-store'' = Inr osTestNewService"
  "GetVolumeRO terminatingFixture name = Inl NotFound"
  by (simp_all add: get_defs terminatingFixture_def withObjectStore_def withService_def
      newFixture_def)

lemma runningFixture_lookups:
  "GetObjectStore runningFixture ''test-object-store'' = Inr osTestRunningObjectStore"
  "GetPersistentVolumeClaim runningFixture ''default'' ''pvc-test-object-store''
     = Inr (osTestNewPersistentVolumeClaim\<lparr>pvcPhase := ClaimBound\<rparr>)"
  "GetVolume runningFixture ''pv-test-object-store'' = Inr osTestNewLonghornVolume"
  "GetVolumeRO runningFixture ''pv-test-object-store'' = Inr osTestNewLonghornVolume"
  "GetPersistentVolume runningFixture ''pv-test-object-store'' = Inr osTestNewPersistentVolume"
  "GetDeployment runningFixture ''test-object-store'' = Inr osTestReadyDeployment"
  "GetService runningFixture ''default'' ''test-object-store'' = Inr osTestNewService"
  by (simp_all add: get_defs runningFixture_def withObjectStore_def withPVC_def
      withVolume_def withPV_def withDeployment_def withService_def)

lemma checkDeployment_ready:
  "specImage (Spec store) = ''quay.io/s3gw/s3gw:latest''
     \<Longrightarrow> specUIImage (Spec store) = ''quay.io/s3gw/s3gw-ui:latest''
     \<Longrightarrow> checkDeployment TestObjectStoreController osTestReadyDeployment store ds
         = (Ok, store, ds)"
  by (simp add: checkDeployment_def checkImage_def osTestReadyDeployment_def
      newDeployment_def TestObjectStoreController_def)

subsection \<open>A key without object store\<close>

text \<open>
  C8. When the key names no object store (the lookup of the name returns not-found),
  \<^verbatim>\<open>reconcile\<close> returns nil and leaves the datastore as it was: no resource is created and
  no write call is issued.
\<close>

theorem reconcile_nonexistent_object_store:
  assumes "SplitMetaNamespaceKey key = Inr (ns, name)"
    and "GetObjectStore ds name = Inl e"
    and "ErrorIsNotFound e"
  shows "reconcile c ds key = (Ok, ds)"
  using assms by (simp add: reconcile_def)

theorem reconcile_nonexistent_object_store_witness:
  "reconcile TestObjectStoreController newFixture TestKey = (Ok, newFixture)"
  using reconcile_nonexistent_object_store
    [of TestKey "''default''" "''test-object-store''" newFixture NotFound
        TestObjectStoreController]
  by (simp add: TestKey_split GetObjectStore_def newFixture_def)

subsection \<open>Responsibility\<close>

text \<open>
  C6. When the lookup of the backing volume returns not-found, the controller is
  responsible for the object store. When the volume exists and its owner is not this
  controller, \<^verbatim>\<open>reconcile\<close> returns nil and leaves the datastore as it was: it acts neither
  on the object store nor on its dependents.
\<close>

theorem responsibility_follows_volume_owner:
  "(GetVolumeRO ds (genPVName store) = Inl e \<and> ErrorIsNotFound e
      \<longrightarrow> isResponsibleFor c ds store) \<and>
   (SplitMetaNamespaceKey key = Inr (ns, name) \<and> GetObjectStore ds name = Inr store \<and>
    GetVolumeRO ds (genPVName store) = Inr vol \<and> volOwnerID vol \<noteq> controllerID c
      \<longrightarrow> reconcile c ds key = (Ok, ds))"
  by (auto simp add: reconcile_def isResponsibleFor_def)

theorem responsibility_follows_volume_owner_witness:
  "isResponsibleFor TestObjectStoreController newFixture osTestNewObjectStore \<and>
   reconcile TestObjectStoreController
     (withVolume (osTestNewLonghornVolume\<lparr>volOwnerID := ''another-controller''\<rparr>)
        (withObjectStore osTestNewObjectStore newFixture)) TestKey
   = (Ok, withVolume (osTestNewLonghornVolume\<lparr>volOwnerID := ''another-controller''\<rparr>)
            (withObjectStore osTestNewObjectStore newFixture))"
proof -
  let ?vol = "osTestNewLonghornVolume\<lparr>volOwnerID := ''another-controller''\<rparr>"
  let ?ds = "withVolume ?vol (withObjectStore osTestNewObjectStore newFixture)"
  have a: "GetVolumeRO newFixture (genPVName osTestNewObjectStore) = Inl NotFound"
    by (simp add: GetVolumeRO_def newFixture_def)
  have b: "GetObjectStore ?ds ''test-object-store'' = Inr osTestNewObjectStore"
    by (simp add: GetObjectStore_def withVolume_def withObjectStore_def
        osTestNewObjectStore_def)
  have c: "GetVolumeRO ?ds (genPVName osTestNewObjectStore) = Inr ?vol"
    by (simp add: GetVolumeRO_def withVolume_def genPVName_def osTestNewObjectStore_def
        osTestNewLonghornVolume_def)
  have d: "volOwnerID ?vol \<noteq> controllerID TestObjectStoreController"
    by (simp add: TestObjectStoreController_def)
  from responsibility_follows_volume_owner
    [of newFixture osTestNewObjectStore NotFound TestObjectStoreController]
  have "isResponsibleFor TestObjectStoreController newFixture osTestNewObjectStore"
    using a by simp
  moreover from responsibility_follows_volume_owner
    [of ?ds osTestNewObjectStore _ TestObjectStoreController TestKey "''default''"
        "''test-object-store''" ?vol]
  have "reconcile TestObjectStoreController ?ds TestKey = (Ok, ?ds)"
    using TestKey_split b c d by simp
  ultimately show ?thesis by simp
qed

subsection \<open>Get-or-create\<close>

lemma getOrCreate_found:
  "GetPersistentVolumeClaim ds (namespace c) (genPVCName store) = Inr pvc
     \<Longrightarrow> getOrCreatePVC c store ds = (Inr pvc, store, ds)"
  "GetVolume ds (genPVName store) = Inr vol
     \<Longrightarrow> getOrCreateVolume c store pvc' ds = (Inr vol, store, ds)"
  "GetPersistentVolume ds (genPVName store) = Inr pv
     \<Longrightarrow> getOrCreatePV c store vol' ds = (Inr pv, store, ds)"
  "GetDeployment ds (osName store) = Inr dpl
     \<Longrightarrow> getOrCreateDeployment c store ds = (Inr dpl, store, ds)"
  "GetService ds (namespace c) (osName store) = Inr svc
     \<Longrightarrow> getOrCreateService c store ds = (Inr svc, store, ds)"
  by (simp_all add: getOrCreatePVC_def getOrCreateVolume_def getOrCreatePV_def
      getOrCreateDeployment_def getOrCreateService_def)

lemma getOrCreate_created:
  "GetPersistentVolumeClaim ds (namespace c) (genPVCName store) = Inl e \<Longrightarrow> ErrorIsNotFound e
     \<Longrightarrow> createPVC c store ds = (Inr pvc, ds')
     \<Longrightarrow> getOrCreatePVC c store ds = (Inr pvc, setState Starting store, ds')"
  "GetVolume ds (genPVName store) = Inl e \<Longrightarrow> ErrorIsNotFound e
     \<Longrightarrow> createVolume c store pvc' ds = (Inr vol, ds')
     \<Longrightarrow> getOrCreateVolume c store pvc' ds = (Inr vol, setState Starting store, ds')"
  "GetPersistentVolume ds (genPVName store) = Inl e \<Longrightarrow> ErrorIsNotFound e
     \<Longrightarrow> createPV c store vol' ds = (Inr pv, ds')
     \<Longrightarrow> getOrCreatePV c store vol' ds = (Inr pv, setState Starting store, ds')"
  "GetDeployment ds (osName store) = Inl e \<Longrightarrow> ErrorIsNotFound e
     \<Longrightarrow> createDeployment c store ds = (Inr dpl, ds')
     \<Longrightarrow> getOrCreateDeployment c store ds = (Inr dpl, setState Starting store, ds')"
  "GetService ds (namespace c) (osName store) = Inl e \<Longrightarrow> ErrorIsNotFound e
     \<Longrightarrow> createService c store ds = (Inr svc, ds')
     \<Longrightarrow> getOrCreateService c store ds = (Inr svc, setState Starting store, ds')"
  by (simp_all add: getOrCreatePVC_def getOrCreateVolume_def getOrCreatePV_def
      getOrCreateDeployment_def getOrCreateService_def setState_same)


lemma create_stores_new_resource:
  "dsFault ds (ACreatePersistentVolumeClaim (newPVC c store)) = None
     \<Longrightarrow> fst (createPVC c store ds) = Inr (newPVC c store) \<and>
         GetPersistentVolumeClaim (snd (createPVC c store ds)) (namespace c) (genPVCName store)
           = Inr (newPVC c store)"
  "dsFault ds (ACreateVolume (newVolume c store pvc')) = None
     \<Longrightarrow> fst (createVolume c store pvc' ds) = Inr (newVolume c store pvc') \<and>
         GetVolume (snd (createVolume c store pvc' ds)) (genPVName store)
           = Inr (newVolume c store pvc')"
  "dsFault ds (ACreatePersistentVolume (newPV c store vol')) = None
     \<Longrightarrow> fst (createPV c store vol' ds) = Inr (newPV c store vol') \<and>
         GetPersistentVolume (snd (createPV c store vol' ds)) (genPVName store)
           = Inr (newPV c store vol')"
  "dsFault ds (ACreateService (newService c store)) = None
     \<Longrightarrow> fst (createService c store ds) = Inr (newService c store) \<and>
         GetService (snd (createService c store ds)) (namespace c) (osName store)
           = Inr (newService c store)"
  by (simp_all add: createPVC_def createVolume_def createPV_def createService_def
      CreatePersistentVolumeClaim_def CreateVolume_def CreatePersistentVolume_def
      CreateService_def record_action_def GetPersistentVolumeClaim_def GetVolume_def
      GetPersistentVolume_def GetService_def newPVC_def newVolume_def newPV_def
      newService_def)




lemma newFixture_lookups:
  "GetPersistentVolumeClaim newFixture ns name = Inl NotFound"
  "GetVolume newFixture name = Inl NotFound"
  "GetVolumeRO newFixture name = Inl NotFound"
  "GetPersistentVolume newFixture name = Inl NotFound"
  "GetDeployment newFixture name = Inl NotFound"
  "GetService newFixture ns name = Inl NotFound"
  "GetIngress newFixture ns name = Inl NotFound"
  "GetSecret newFixture ns name = Inl NotFound"
  "GetSetting newFixture = Inr []"
  "dsFault newFixture a = None"
  by (simp_all add: get_defs newFixture_def)




subsection \<open>Failures while running\<close>




subsection \<open>Stopping\<close>

lemma UpdateObjectStoreStatus_actions [simp]:
  "dsActions (snd (UpdateObjectStoreStatus ds store))
     = dsActions ds @ [AUpdateObjectStoreStatus store]"
  by (simp add: UpdateObjectStoreStatus_def split: option.splits)

lemma Status_setState_neq:
  "State (Status store) \<noteq> st \<Longrightarrow> Status store \<noteq> Status (setState st store)"
  by (metis setState_simps(1))

text \<open>
  C3, as the code has it. Let \<^verbatim>\<open>reconcile\<close> run on an object store that is not being
  deleted, for which this controller is responsible, in state \<open>Stopping\<close>, and let the
  deployment be found. If the desired replica count is set and is not 0, the pass issues
  the update of the deployment to 0 replicas, returns the result of that update and
  leaves the stored object store as it was (state \<open>Stopping\<close>). If the count is 0 or is
  not set, and pods are available, nothing changes. If the count is 0 or is not set, and
  no pod is available, the pass writes the status with state \<open>Stopped\<close>. So a status is
  written only when the count is 0 or not set and no pod is available.
\<close>

theorem stopping_pass:
  assumes "SplitMetaNamespaceKey key = Inr (ns, name)"
    and "GetObjectStore ds name = Inr store"
    and "isResponsibleFor c ds store"
    and "osDeletionTimestamp store = None"
    and "State (Status store) = Stopping"
    and "GetDeployment ds (osName store) = Inr dpl"
  shows "(\<forall>n. dplReplicas dpl = Some n \<and> n \<noteq> 0 \<longrightarrow>
            snd (reconcile c ds key) = snd (UpdateDeployment ds (dpl\<lparr>dplReplicas := Some 0\<rparr>)) \<and>
            fst (reconcile c ds key)
              = (case fst (UpdateDeployment ds (dpl\<lparr>dplReplicas := Some 0\<rparr>)) of
                   Inl e \<Rightarrow> Fail e | Inr updated \<Rightarrow> Ok) \<and>
            GetObjectStore (snd (reconcile c ds key)) name = Inr store) \<and>
         ((dplReplicas dpl = Some 0 \<or> dplReplicas dpl = None) \<and> dplAvailableReplicas dpl > 0
            \<longrightarrow> reconcile c ds key = (Ok, ds)) \<and>
         ((dplReplicas dpl = Some 0 \<or> dplReplicas dpl = None) \<and> dplAvailableReplicas dpl \<le> 0
            \<longrightarrow> reconcile c ds key
                  = (Ok, snd (UpdateObjectStoreStatus ds (setState Stopped store)))) \<and>
         (statusWrites (snd (reconcile c ds key)) \<noteq> statusWrites ds
            \<longrightarrow> (dplReplicas dpl = Some 0 \<or> dplReplicas dpl = None) \<and>
                dplAvailableReplicas dpl \<le> 0)"
proof -
  have d: "dispatch c store ds = handleStopping c store ds"
    using assms(4,5) by (simp add: dispatch_def)
  note r = reconcile_found [OF assms(1,2,3), unfolded d]
  have ne: "Status store \<noteq> Status (setState Stopped store)"
    using assms(5) by (intro Status_setState_neq) simp
  show ?thesis
  proof (cases "dplReplicas dpl \<noteq> None \<and> dplReplicas dpl \<noteq> Some 0")
    case True
    then have h: "handleStopping c store ds
        = ((case fst (UpdateDeployment ds (dpl\<lparr>dplReplicas := Some 0\<rparr>)) of
              Inl e \<Rightarrow> Fail e | Inr updated \<Rightarrow> Ok),
           store, snd (UpdateDeployment ds (dpl\<lparr>dplReplicas := Some 0\<rparr>)))"
      using assms(6) by (auto simp add: handleStopping_def split: prod.splits sum.splits)
    from True assms(2) show ?thesis
      by (auto simp add: r h deferredStatusUpdate_def statusWrites_def GetObjectStore_def)
  next
    case False
    then have z: "dplReplicas dpl = Some 0 \<or> dplReplicas dpl = None" by auto
    show ?thesis
    proof (cases "dplAvailableReplicas dpl > 0")
      case True
      with z assms(6) have h: "handleStopping c store ds = (Ok, store, ds)"
        by (auto simp add: handleStopping_def)
      from True z show ?thesis
        by (auto simp add: r h deferredStatusUpdate_def)
    next
      case False
      with z assms(6) have h: "handleStopping c store ds = (Ok, setState Stopped store, ds)"
        by (auto simp add: handleStopping_def)
      from False z ne show ?thesis
        by (auto simp add: r h deferredStatusUpdate_def)
    qed
  qed
qed

lemma stoppingFixture_responsible:
  "isResponsibleFor TestObjectStoreController (stoppingFixture dpl) osTestStoppingObjectStore"
  by (simp add: isResponsibleFor_def stoppingFixture_lookups)

theorem stopping_pass_witness:
  "snd (reconcile TestObjectStoreController
          (stoppingFixture (osTestNewDeployment\<lparr>dplReplicas := Some 1\<rparr>)) TestKey)
     = snd (UpdateDeployment (stoppingFixture (osTestNewDeployment\<lparr>dplReplicas := Some 1\<rparr>))
              (osTestNewDeployment\<lparr>dplReplicas := Some 0\<rparr>)) \<and>
   reconcile TestObjectStoreController
       (stoppingFixture (osTestNewDeployment\<lparr>dplReplicas := Some 0, dplAvailableReplicas := 1\<rparr>))
       TestKey
     = (Ok, stoppingFixture
              (osTestNewDeployment\<lparr>dplReplicas := Some 0, dplAvailableReplicas := 1\<rparr>)) \<and>
   reconcile TestObjectStoreController
       (stoppingFixture (osTestNewDeployment\<lparr>dplReplicas := Some 0\<rparr>)) TestKey
     = (Ok, snd (UpdateObjectStoreStatus
                   (stoppingFixture (osTestNewDeployment\<lparr>dplReplicas := Some 0\<rparr>))
                   (setState Stopped osTestStoppingObjectStore)))"
proof -
  let ?c = TestObjectStoreController
  let ?d1 = "osTestNewDeployment\<lparr>dplReplicas := Some 1\<rparr>"
  let ?d2 = "osTestNewDeployment\<lparr>dplReplicas := Some 0, dplAvailableReplicas := 1\<rparr>"
  let ?d3 = "osTestNewDeployment\<lparr>dplReplicas := Some 0\<rparr>"
  have A: "snd (reconcile ?c (stoppingFixture ?d1) TestKey)
      = snd (UpdateDeployment (stoppingFixture ?d1) (?d1\<lparr>dplReplicas := Some 0\<rparr>))"
    using stopping_pass [OF TestKey_split, of "stoppingFixture ?d1" osTestStoppingObjectStore
        ?c ?d1]
    by (simp add: stoppingFixture_lookups stoppingFixture_responsible)
  have B: "reconcile ?c (stoppingFixture ?d2) TestKey = (Ok, stoppingFixture ?d2)"
    using stopping_pass [OF TestKey_split, of "stoppingFixture ?d2" osTestStoppingObjectStore
        ?c ?d2]
    by (simp add: stoppingFixture_lookups stoppingFixture_responsible)
  have C: "reconcile ?c (stoppingFixture ?d3) TestKey
      = (Ok, snd (UpdateObjectStoreStatus (stoppingFixture ?d3)
                    (setState Stopped osTestStoppingObjectStore)))"
    using stopping_pass [OF TestKey_split, of "stoppingFixture ?d3" osTestStoppingObjectStore
        ?c ?d3]
    by (simp add: stoppingFixture_lookups stoppingFixture_responsible)
  from A B C show ?thesis by simp
qed

text \<open>
  As the specification states it, the property fails for a deployment whose desired replica count is not
  set, such as the deployment of the unit tests: the state becomes \<open>Stopped\<close> although
  the deployment does not have a replica count of 0.
\<close>

theorem stopped_without_zero_replicas_counterexample:
  "State (Status osTestStoppingObjectStore) = Stopping \<and>
   GetDeployment (stoppingFixture osTestNewDeployment) ''test-object-store''
     = Inr osTestNewDeployment \<and>
   dplReplicas osTestNewDeployment \<noteq> Some 0 \<and>
   GetObjectStore
     (snd (reconcile TestObjectStoreController (stoppingFixture osTestNewDeployment) TestKey))
     ''test-object-store''
     = Inr (setState Stopped osTestStoppingObjectStore) \<and>
   State (Status (setState Stopped osTestStoppingObjectStore)) = Stopped"
proof -
  let ?ds = "stoppingFixture osTestNewDeployment"
  have "reconcile TestObjectStoreController ?ds TestKey
      = (Ok, snd (UpdateObjectStoreStatus ?ds (setState Stopped osTestStoppingObjectStore)))"
    by (simp add: reconcile_def TestKey_split stoppingFixture_lookups
        stoppingFixture_responsible dispatch_def handleStopping_def deferredStatusUpdate_def
        Status_setState)
  then show ?thesis
    by (simp add: stoppingFixture_lookups UpdateObjectStoreStatus_def GetObjectStore_def)
qed

subsection \<open>Terminating\<close>

lemma handleTerminating_no_finalizers:
  assumes "osFinalizers store = []"
  shows "fst (snd (handleTerminating c store ds)) = store"
    and "snd (snd (handleTerminating c store ds)) = ds"
    and "(\<forall>e. GetService ds (namespace c) (osName store) = Inl e \<longrightarrow> ErrorIsNotFound e)
         \<Longrightarrow> (\<forall>e. GetDeployment ds (osName store) = Inl e \<longrightarrow> ErrorIsNotFound e)
         \<Longrightarrow> (\<forall>e. GetPersistentVolumeClaim ds (namespace c) (genPVCName store) = Inl e
                 \<longrightarrow> ErrorIsNotFound e)
         \<Longrightarrow> (\<forall>e. GetPersistentVolume ds (genPVName store) = Inl e \<longrightarrow> ErrorIsNotFound e)
         \<Longrightarrow> (\<forall>e. GetVolume ds (genPVName store) = Inl e \<longrightarrow> ErrorIsNotFound e)
         \<Longrightarrow> fst (handleTerminating c store ds) = Ok"
    and "fst (handleTerminating c store ds) = Fail e
         \<Longrightarrow> \<not> ErrorIsNotFound e \<and>
             (GetService ds (namespace c) (osName store) = Inl e \<or>
              GetDeployment ds (osName store) = Inl e \<or>
              GetPersistentVolumeClaim ds (namespace c) (genPVCName store) = Inl e \<or>
              GetPersistentVolume ds (genPVName store) = Inl e \<or>
              GetVolume ds (genPVName store) = Inl e)"
    and "fst (handleTerminating c store ds) \<noteq> NilPanic"
  using assms
  by (auto simp add: handleTerminating_def split: sum.splits if_splits)

text \<open>
  C4, as the code has it. Let \<^verbatim>\<open>reconcile\<close> run on an object store with a deletion
  timestamp for which this controller is responsible. If the state is not \<open>Terminating\<close>,
  the pass writes the status with state \<open>Terminating\<close> and returns nil. If the state is
  \<open>Terminating\<close> and there are finalizers, the pass calls the removal of the finalizer
  and returns what the removal returns. If the state is \<open>Terminating\<close> and there is no
  finalizer, the pass changes nothing; it returns nil whenever no lookup of a dependent
  fails with an error other than not-found, whether the dependents are still found or
  are all gone, and an error that it returns is the error of such a lookup.
\<close>

theorem terminating_pass:
  assumes "SplitMetaNamespaceKey key = Inr (ns, name)"
    and "GetObjectStore ds name = Inr store"
    and "isResponsibleFor c ds store"
    and "osDeletionTimestamp store \<noteq> None"
  shows "(State (Status store) \<noteq> Terminating
            \<longrightarrow> reconcile c ds key
                  = (Ok, snd (UpdateObjectStoreStatus ds (setState Terminating store)))) \<and>
         (State (Status store) = Terminating \<and> osFinalizers store \<noteq> []
            \<longrightarrow> reconcile c ds key = RemoveFinalizerForObjectStore ds store) \<and>
         (State (Status store) = Terminating \<and> osFinalizers store = []
            \<longrightarrow> snd (reconcile c ds key) = ds \<and>
                ((\<forall>e. GetService ds (namespace c) (osName store) = Inl e \<longrightarrow> ErrorIsNotFound e) \<and>
                 (\<forall>e. GetDeployment ds (osName store) = Inl e \<longrightarrow> ErrorIsNotFound e) \<and>
                 (\<forall>e. GetPersistentVolumeClaim ds (namespace c) (genPVCName store) = Inl e
                        \<longrightarrow> ErrorIsNotFound e) \<and>
                 (\<forall>e. GetPersistentVolume ds (genPVName store) = Inl e \<longrightarrow> ErrorIsNotFound e) \<and>
                 (\<forall>e. GetVolume ds (genPVName store) = Inl e \<longrightarrow> ErrorIsNotFound e)
                   \<longrightarrow> fst (reconcile c ds key) = Ok) \<and>
                (\<forall>e. fst (reconcile c ds key) = Fail e
                   \<longrightarrow> \<not> ErrorIsNotFound e \<and>
                       (GetService ds (namespace c) (osName store) = Inl e \<or>
                        GetDeployment ds (osName store) = Inl e \<or>
                        GetPersistentVolumeClaim ds (namespace c) (genPVCName store) = Inl e \<or>
                        GetPersistentVolume ds (genPVName store) = Inl e \<or>
                        GetVolume ds (genPVName store) = Inl e)))"
proof -
  have A: "reconcile c ds key
      = (Ok, snd (UpdateObjectStoreStatus ds (setState Terminating store)))"
    if "State (Status store) \<noteq> Terminating"
    using that assms(4) Status_setState_neq [of store Terminating]
    by (simp add: reconcile_found [OF assms(1,2,3)] dispatch_def deferredStatusUpdate_def)
  have B: "reconcile c ds key = RemoveFinalizerForObjectStore ds store"
    if "State (Status store) = Terminating" "osFinalizers store \<noteq> []"
    using that assms(4)
    by (simp add: reconcile_found [OF assms(1,2,3)] dispatch_def deferredStatusUpdate_def
        handleTerminating_def split: prod.splits)
  have r: "reconcile c ds key = (fst (handleTerminating c store ds), ds)"
    if "State (Status store) = Terminating" "osFinalizers store = []"
    using that assms(4)
    by (simp add: reconcile_found [OF assms(1,2,3)] dispatch_def deferredStatusUpdate_def
        handleTerminating_no_finalizers)
  have C: "fst (reconcile c ds key) = Ok"
    if "State (Status store) = Terminating" "osFinalizers store = []"
      "\<forall>e. GetService ds (namespace c) (osName store) = Inl e \<longrightarrow> ErrorIsNotFound e"
      "\<forall>e. GetDeployment ds (osName store) = Inl e \<longrightarrow> ErrorIsNotFound e"
      "\<forall>e. GetPersistentVolumeClaim ds (namespace c) (genPVCName store) = Inl e
            \<longrightarrow> ErrorIsNotFound e"
      "\<forall>e. GetPersistentVolume ds (genPVName store) = Inl e \<longrightarrow> ErrorIsNotFound e"
      "\<forall>e. GetVolume ds (genPVName store) = Inl e \<longrightarrow> ErrorIsNotFound e"
    using handleTerminating_no_finalizers(3) [OF that(2-7)] by (simp add: r [OF that(1,2)])
  have D: "\<not> ErrorIsNotFound e \<and>
       (GetService ds (namespace c) (osName store) = Inl e \<or>
        GetDeployment ds (osName store) = Inl e \<or>
        GetPersistentVolumeClaim ds (namespace c) (genPVCName store) = Inl e \<or>
        GetPersistentVolume ds (genPVName store) = Inl e \<or>
        GetVolume ds (genPVName store) = Inl e)"
    if "State (Status store) = Terminating" "osFinalizers store = []"
      "fst (reconcile c ds key) = Fail e" for e
    using handleTerminating_no_finalizers(4) [OF that(2), of c ds e] that(3)
    by (simp add: r [OF that(1,2)])
  have E: "snd (reconcile c ds key) = ds"
    if "State (Status store) = Terminating" "osFinalizers store = []"
    by (simp add: r [OF that])
  from A B C D E show ?thesis by blast
qed

lemma withObjectStore_lookups [simp]:
  "GetObjectStore (withObjectStore store ds) (osName store) = Inr store"
  "GetVolumeRO (withObjectStore store ds) name = GetVolumeRO ds name"
  "GetVolume (withObjectStore store ds) name = GetVolume ds name"
  "GetPersistentVolumeClaim (withObjectStore store ds) ns name
     = GetPersistentVolumeClaim ds ns name"
  "GetPersistentVolume (withObjectStore store ds) name = GetPersistentVolume ds name"
  "GetDeployment (withObjectStore store ds) name = GetDeployment ds name"
  "GetService (withObjectStore store ds) ns name = GetService ds ns name"
  "GetIngress (withObjectStore store ds) ns name = GetIngress ds ns name"
  "GetSecret (withObjectStore store ds) ns name = GetSecret ds ns name"
  "GetSetting (withObjectStore store ds) = GetSetting ds"
  "dsFault (withObjectStore store ds) = dsFault ds"
  "dsActions (withObjectStore store ds) = dsActions ds"
  by (simp_all add: get_defs withObjectStore_def)

lemma withObjectStore_responsible:
  "isResponsibleFor c (withObjectStore store newFixture) store'"
  by (simp add: isResponsibleFor_def newFixture_lookups)

theorem terminating_pass_witness:
  "reconcile TestObjectStoreController
       (withObjectStore (osTestStoppingObjectStore\<lparr>osDeletionTimestamp := Some 1\<rparr>) newFixture)
       TestKey
     = (Ok, snd (UpdateObjectStoreStatus
          (withObjectStore (osTestStoppingObjectStore\<lparr>osDeletionTimestamp := Some 1\<rparr>)
             newFixture)
          (setState Terminating (osTestStoppingObjectStore\<lparr>osDeletionTimestamp := Some 1\<rparr>)))) \<and>
   reconcile TestObjectStoreController
       (withObjectStore (osTestTerminatingObjectStore\<lparr>osFinalizers := [''longhorn.io'']\<rparr>)
          newFixture) TestKey
     = RemoveFinalizerForObjectStore
         (withObjectStore (osTestTerminatingObjectStore\<lparr>osFinalizers := [''longhorn.io'']\<rparr>)
            newFixture)
         (osTestTerminatingObjectStore\<lparr>osFinalizers := [''longhorn.io'']\<rparr>) \<and>
   reconcile TestObjectStoreController
       (withObjectStore osTestTerminatingObjectStore newFixture) TestKey
     = (Ok, withObjectStore osTestTerminatingObjectStore newFixture)"
proof -
  let ?c = TestObjectStoreController
  let ?s1 = "osTestStoppingObjectStore\<lparr>osDeletionTimestamp := Some 1\<rparr>"
  let ?s2 = "osTestTerminatingObjectStore\<lparr>osFinalizers := [''longhorn.io'']\<rparr>"
  let ?s3 = osTestTerminatingObjectStore
  have n: "osName ?s1 = ''test-object-store''" "osName ?s2 = ''test-object-store''"
    "osName ?s3 = ''test-object-store''"
    by simp_all
  have A: "reconcile ?c (withObjectStore ?s1 newFixture) TestKey
      = (Ok, snd (UpdateObjectStoreStatus (withObjectStore ?s1 newFixture)
                    (setState Terminating ?s1)))"
    using terminating_pass [OF TestKey_split, of "withObjectStore ?s1 newFixture" ?s1 ?c]
      withObjectStore_lookups(1) [of ?s1 newFixture]
    by (simp add: withObjectStore_responsible)
  have B: "reconcile ?c (withObjectStore ?s2 newFixture) TestKey
      = RemoveFinalizerForObjectStore (withObjectStore ?s2 newFixture) ?s2"
    using terminating_pass [OF TestKey_split, of "withObjectStore ?s2 newFixture" ?s2 ?c]
      withObjectStore_lookups(1) [of ?s2 newFixture]
    by (simp add: withObjectStore_responsible)
  have C: "snd (reconcile ?c (withObjectStore ?s3 newFixture) TestKey)
        = withObjectStore ?s3 newFixture \<and>
      fst (reconcile ?c (withObjectStore ?s3 newFixture) TestKey) = Ok"
    using terminating_pass [OF TestKey_split, of "withObjectStore ?s3 newFixture" ?s3 ?c]
      withObjectStore_lookups(1) [of ?s3 newFixture]
    by (simp add: withObjectStore_responsible newFixture_lookups)
  from A B C show ?thesis by (simp add: prod_eq_iff)
qed

text \<open>
  As the specification states it, the property fails while a dependent still exists: for an object store
  in state \<open>Terminating\<close> without finalizers whose service is still found, the pass
  returns nil.
\<close>

theorem success_with_dependent_present_counterexample:
  "osDeletionTimestamp osTestTerminatingObjectStore = Some 1 \<and>
   State (Status osTestTerminatingObjectStore) = Terminating \<and>
   osFinalizers osTestTerminatingObjectStore = [] \<and>
   GetObjectStore terminatingFixture ''test-object-store'' = Inr osTestTerminatingObjectStore \<and>
   GetService terminatingFixture ''default'' ''test-object-store'' = Inr osTestNewService \<and>
   reconcile TestObjectStoreController terminatingFixture TestKey = (Ok, terminatingFixture)"
  by (simp add: reconcile_def TestKey_split terminatingFixture_lookups isResponsibleFor_def
      dispatch_def handleTerminating_def deferredStatusUpdate_def)

subsection \<open>The deployment check\<close>

lemma UpdateDeployment_fault_actions [simp]:
  "dsActions (snd (UpdateDeployment (ds\<lparr>dsFault := f\<rparr>) dpl)) = dsActions ds @ [AUpdateDeployment dpl]"
  by (simp add: UpdateDeployment_def split: option.splits)

lemma checkImage_actions:
  "checkImage c name img dpl store ds = Inr (dpl', store', ds') \<Longrightarrow>
   dsActions ds' = dsActions ds @ (if GetImageOfDeploymentContainerWithName c dpl name \<noteq> img then [AUpdateDeployment dpl'] else [])
   \<and> store' = (if GetImageOfDeploymentContainerWithName c dpl name \<noteq> img then setState Starting store else store)"
  by (auto simp add: checkImage_def split: if_splits sum.splits)


text \<open>
  C10, as the code has it. \<^verbatim>\<open>checkDeployment\<close> writes to the datastore. When the desired
  replica count is set and is not 1, it issues the update of the deployment to 1 replica
  and returns the error "deployment just scaled". When the replica count is 1 and the
  deployment is ready (it has replicas and none is unavailable), a container image that
  differs from the image of the spec, and that the image helper can set, makes it issue an
  update of the deployment with the new image and set the state to \<open>Starting\<close>; this holds
  for the object store container and then for the UI container. What the update calls
  answer is ignored: the returned outcome, the object store and the issued calls are the
  same whatever the API server answers to a write.
\<close>

theorem checkDeployment_effects:
  "(dplReplicas dpl = Some n \<and> n \<noteq> 1 \<longrightarrow>
      checkDeployment c dpl store ds
        = (Fail (New ''deployment just scaled''), store,
           snd (UpdateDeployment ds (dpl\<lparr>dplReplicas := Some 1\<rparr>))) \<and>
      dsActions (snd (snd (checkDeployment c dpl store ds)))
        = dsActions ds @ [AUpdateDeployment (dpl\<lparr>dplReplicas := Some 1\<rparr>)]) \<and>
   (dplReplicas dpl = Some 1 \<and> dplStatusReplicas dpl \<noteq> 0 \<and> dplUnavailableReplicas dpl \<le> 0 \<and>
    GetImageOfDeploymentContainerWithName c dpl (ObjectStoreContainerName c)
      \<noteq> specImage (Spec store) \<and>
    SetImageOfDeploymentContainerWithName c dpl (ObjectStoreContainerName c)
      (specImage (Spec store)) = Inr dpla \<longrightarrow>
      State (Status (fst (snd (checkDeployment c dpl store ds)))) = Starting \<and>
      (\<exists>rest. dsActions (snd (snd (checkDeployment c dpl store ds)))
                = dsActions ds @ AUpdateDeployment dpla # rest)) \<and>
   (dplReplicas dpl = Some 1 \<and> dplStatusReplicas dpl \<noteq> 0 \<and> dplUnavailableReplicas dpl \<le> 0 \<and>
    checkImage c (ObjectStoreContainerName c) (specImage (Spec store)) dpl store ds
      = Inr (dplb, storeb, dsb) \<and>
    GetImageOfDeploymentContainerWithName c dplb (ObjectStoreUIContainerName c)
      \<noteq> specUIImage (Spec store) \<and>
    SetImageOfDeploymentContainerWithName c dplb (ObjectStoreUIContainerName c)
      (specUIImage (Spec store)) = Inr dplc \<longrightarrow>
      checkDeployment c dpl store ds
        = (Ok, setState Starting storeb, snd (UpdateDeployment dsb dplc))) \<and>
   (fst (checkDeployment c dpl store (ds\<lparr>dsFault := f\<rparr>)) = fst (checkDeployment c dpl store ds) \<and>
    fst (snd (checkDeployment c dpl store (ds\<lparr>dsFault := f\<rparr>)))
      = fst (snd (checkDeployment c dpl store ds)) \<and>
    dsActions (snd (snd (checkDeployment c dpl store (ds\<lparr>dsFault := f\<rparr>))))
      = dsActions (snd (snd (checkDeployment c dpl store ds))))"
proof -
  have A: "checkDeployment c dpl store ds
        = (Fail (New ''deployment just scaled''), store,
           snd (UpdateDeployment ds (dpl\<lparr>dplReplicas := Some 1\<rparr>)))"
    if "dplReplicas dpl = Some n" "n \<noteq> 1"
    using that by (simp add: checkDeployment_def)
  have B: "State (Status (fst (snd (checkDeployment c dpl store ds)))) = Starting \<and>
      (\<exists>rest. dsActions (snd (snd (checkDeployment c dpl store ds)))
                = dsActions ds @ AUpdateDeployment dpla # rest)"
    if "dplReplicas dpl = Some 1" "dplStatusReplicas dpl \<noteq> 0" "dplUnavailableReplicas dpl \<le> 0"
      "GetImageOfDeploymentContainerWithName c dpl (ObjectStoreContainerName c)
         \<noteq> specImage (Spec store)"
      "SetImageOfDeploymentContainerWithName c dpl (ObjectStoreContainerName c)
         (specImage (Spec store)) = Inr dpla"
    using that
    by (auto simp add: checkDeployment_def checkImage_def split: sum.splits)
  have C: "checkDeployment c dpl store ds
        = (Ok, setState Starting storeb, snd (UpdateDeployment dsb dplc))"
    if "dplReplicas dpl = Some 1" "dplStatusReplicas dpl \<noteq> 0" "dplUnavailableReplicas dpl \<le> 0"
      "checkImage c (ObjectStoreContainerName c) (specImage (Spec store)) dpl store ds
         = Inr (dplb, storeb, dsb)"
      "GetImageOfDeploymentContainerWithName c dplb (ObjectStoreUIContainerName c)
         \<noteq> specUIImage (Spec store)"
      "SetImageOfDeploymentContainerWithName c dplb (ObjectStoreUIContainerName c)
         (specUIImage (Spec store)) = Inr dplc"
    using that checkImage_frame [OF that(4)]
    by (simp add: checkDeployment_def) (simp add: checkImage_def)
  have D: "fst (checkDeployment c dpl store (ds\<lparr>dsFault := f\<rparr>)) = fst (checkDeployment c dpl store ds) \<and>
    fst (snd (checkDeployment c dpl store (ds\<lparr>dsFault := f\<rparr>)))
      = fst (snd (checkDeployment c dpl store ds)) \<and>
    dsActions (snd (snd (checkDeployment c dpl store (ds\<lparr>dsFault := f\<rparr>))))
      = dsActions (snd (snd (checkDeployment c dpl store ds)))"
    by (auto simp add: checkDeployment_def checkImage_def split: option.splits sum.splits)
  from A B C D show ?thesis by (simp add: A)
qed


lemma checkDeployment_upgrade_image:
  "GetImageOfDeploymentContainerWithName TestObjectStoreController osTestReadyDeployment
     (ObjectStoreContainerName TestObjectStoreController)
     \<noteq> specImage (Spec osTestUpgradedObjectStore)"
  "\<exists>dpl. SetImageOfDeploymentContainerWithName TestObjectStoreController osTestReadyDeployment
     (ObjectStoreContainerName TestObjectStoreController)
     (specImage (Spec osTestUpgradedObjectStore)) = Inr dpl"
  by (simp_all add: TestObjectStoreController_def osTestReadyDeployment_def newDeployment_def
      osTestUpgradedObjectStore_def)

theorem checkDeployment_effects_witness:
  "checkDeployment TestObjectStoreController (osTestReadyDeployment\<lparr>dplReplicas := Some 0\<rparr>)
       osTestRunningObjectStore newFixture
     = (Fail (New ''deployment just scaled''), osTestRunningObjectStore,
        snd (UpdateDeployment newFixture (osTestReadyDeployment\<lparr>dplReplicas := Some 1\<rparr>))) \<and>
   State (Status (fst (snd (checkDeployment TestObjectStoreController osTestReadyDeployment
       osTestUpgradedObjectStore newFixture)))) = Starting \<and>
   dsActions (snd (snd (checkDeployment TestObjectStoreController osTestReadyDeployment
       osTestUpgradedObjectStore newFixture))) \<noteq> []"
proof -
  let ?c = TestObjectStoreController
  have A: "checkDeployment ?c (osTestReadyDeployment\<lparr>dplReplicas := Some 0\<rparr>)
       osTestRunningObjectStore newFixture
     = (Fail (New ''deployment just scaled''), osTestRunningObjectStore,
        snd (UpdateDeployment newFixture (osTestReadyDeployment\<lparr>dplReplicas := Some 1\<rparr>)))"
    using checkDeployment_effects
      [where dpl = "osTestReadyDeployment\<lparr>dplReplicas := Some 0\<rparr>" and n = 0 and c = ?c
         and store = osTestRunningObjectStore and ds = newFixture]
    by simp
  obtain dpl where s: "SetImageOfDeploymentContainerWithName ?c osTestReadyDeployment
      (ObjectStoreContainerName ?c) (specImage (Spec osTestUpgradedObjectStore)) = Inr dpl"
    using checkDeployment_upgrade_image(2) by blast
  have r: "dplReplicas osTestReadyDeployment = Some 1"
    "dplStatusReplicas osTestReadyDeployment \<noteq> 0"
    "dplUnavailableReplicas osTestReadyDeployment \<le> 0"
    by (simp_all add: osTestReadyDeployment_def newDeployment_def)
  have B: "State (Status (fst (snd (checkDeployment ?c osTestReadyDeployment
          osTestUpgradedObjectStore newFixture)))) = Starting \<and>
      dsActions (snd (snd (checkDeployment ?c osTestReadyDeployment
          osTestUpgradedObjectStore newFixture))) \<noteq> []"
    using checkDeployment_effects
      [where dpl = osTestReadyDeployment and c = ?c and store = osTestUpgradedObjectStore
         and ds = newFixture and dpla = dpl]
      s r checkDeployment_upgrade_image(1)
    by auto
  from A B show ?thesis by simp
qed

text \<open>
  As the specification states it, the property fails for a deployment that is not ready: its image differs
  from the image of the spec, and the check returns "deployment not ready" without a
  write and without a change of the state.
\<close>

theorem image_differs_without_update_counterexample:
  "GetImageOfDeploymentContainerWithName TestObjectStoreController
     (osTestReadyDeployment\<lparr>dplStatusReplicas := 0\<rparr>)
     (ObjectStoreContainerName TestObjectStoreController)
     \<noteq> specImage (Spec osTestUpgradedObjectStore) \<and>
   State (Status osTestUpgradedObjectStore) = Running \<and>
   checkDeployment TestObjectStoreController (osTestReadyDeployment\<lparr>dplStatusReplicas := 0\<rparr>)
       osTestUpgradedObjectStore newFixture
     = (Fail (New ''deployment not ready''), osTestUpgradedObjectStore, newFixture)"
  by (simp add: checkDeployment_def TestObjectStoreController_def osTestReadyDeployment_def
      newDeployment_def osTestUpgradedObjectStore_def)

subsection \<open>Ingresses of the public endpoints\<close>






lemma osTestPublicObjectStore_fields [simp]:
  "osName osTestPublicObjectStore = ''test-object-store''"
  "specEndpoints (Spec osTestPublicObjectStore) = [osTestPublicEndpoint]"
  "epName osTestPublicEndpoint = ''public''"
  "epDomainName osTestPublicEndpoint = ''s3.example.com''"
  "epTLSName osTestPublicEndpoint = ''s3-tls''"
  by (simp_all add: osTestPublicObjectStore_def osTestPublicEndpoint_def)


subsection \<open>What the handlers leave untouched\<close>

lemma writesLogged_refl [simp]: "writesLogged ds ds" "writesLoggedClaimsKept ds ds"
  by (simp_all add: writesLogged_def writesLoggedClaimsKept_def)

lemma writesLogged_trans: "writesLogged ds ds1 \<Longrightarrow> writesLogged ds1 ds2 \<Longrightarrow> writesLogged ds ds2"
  by (auto simp add: writesLogged_def)

lemma writesLoggedClaimsKept_trans:
  "writesLoggedClaimsKept ds ds1 \<Longrightarrow> writesLoggedClaimsKept ds1 ds2
     \<Longrightarrow> writesLoggedClaimsKept ds ds2"
  by (auto simp add: writesLoggedClaimsKept_def intro: writesLogged_trans)

lemma writesLoggedClaimsKept_weaken: "writesLoggedClaimsKept ds ds' \<Longrightarrow> writesLogged ds ds'"
  by (simp add: writesLoggedClaimsKept_def)

lemma writesLogged_record_action:
  "\<not> isStatusWrite a \<Longrightarrow> dsActions ds1 = dsActions ds \<Longrightarrow> writesLogged ds (record_action a ds1)"
  by (simp add: writesLogged_def statusWrites_def)

lemma writesLogged_primitives:
  "writesLogged ds (snd (CreatePersistentVolumeClaim ds ns pvc))"
  "writesLoggedClaimsKept ds (snd (CreateVolume ds vol))"
  "writesLoggedClaimsKept ds (snd (CreatePersistentVolume ds pv))"
  "writesLoggedClaimsKept ds (snd (CreateDeployment ds dpl))"
  "writesLoggedClaimsKept ds (snd (CreateService ds ns svc))"
  "writesLoggedClaimsKept ds (snd (CreateIngress ds ns ing))"
  "writesLoggedClaimsKept ds (snd (UpdateDeployment ds dpl))"
  "writesLoggedClaimsKept ds (snd (RemoveFinalizerForObjectStore ds store))"
  by (simp_all add: create_defs UpdateDeployment_def RemoveFinalizerForObjectStore_def
      writesLoggedClaimsKept_def writesLogged_record_action split: option.splits)

lemma getOrCreatePVC_logged:
  "getOrCreatePVC c store ds = (r, store', ds') \<Longrightarrow> writesLogged ds ds'"
  using writesLogged_primitives(1) [of ds "namespace c" "newPVC c store"]
  by (auto simp add: getOrCreatePVC_def createPVC_def split: sum.splits if_splits prod.splits)

lemma getOrCreateVolume_logged:
  "getOrCreateVolume c store pvc ds = (r, store', ds') \<Longrightarrow> writesLoggedClaimsKept ds ds'"
  using writesLogged_primitives(2) [of ds "newVolume c store pvc"]
  by (auto simp add: getOrCreateVolume_def createVolume_def
      split: sum.splits if_splits prod.splits)

lemma getOrCreatePV_logged:
  "getOrCreatePV c store vol ds = (r, store', ds') \<Longrightarrow> writesLoggedClaimsKept ds ds'"
  using writesLogged_primitives(3) [of ds "newPV c store vol"]
  by (auto simp add: getOrCreatePV_def createPV_def split: sum.splits if_splits prod.splits)

lemma createDeployment_logged:
  "writesLoggedClaimsKept ds (snd (createDeployment c store ds))"
  by (simp add: createDeployment_def writesLogged_primitives split: sum.splits)

lemma getOrCreateDeployment_logged:
  "getOrCreateDeployment c store ds = (r, store', ds') \<Longrightarrow> writesLoggedClaimsKept ds ds'"
  using createDeployment_logged [of ds c store]
  by (auto simp add: getOrCreateDeployment_def split: sum.splits if_splits prod.splits)

lemma getOrCreateService_logged:
  "getOrCreateService c store ds = (r, store', ds') \<Longrightarrow> writesLoggedClaimsKept ds ds'"
  using writesLogged_primitives(5) [of ds "namespace c" "newService c store"]
  by (auto simp add: getOrCreateService_def createService_def
      split: sum.splits if_splits prod.splits)

lemma s3EndpointsLoop_logged:
  "s3EndpointsLoop c eps ings store ds = (r, store', ds') \<Longrightarrow> writesLoggedClaimsKept ds ds'"
proof (induction eps arbitrary: ings store ds)
  case Nil
  then show ?case by simp
next
  case (Cons ep rest)
  note p = writesLogged_primitives(6) [of ds "namespace c" "newIngress c store ep"]
  from Cons.prems show ?case
    by (auto split: sum.splits if_splits prod.splits
        dest!: Cons.IH intro: writesLoggedClaimsKept_trans [OF p] simp add: p)
qed

lemma checkImage_logged:
  "checkImage c name img dpl store ds = Inr (dpl', store', ds')
     \<Longrightarrow> writesLoggedClaimsKept ds ds'"
  by (auto simp add: checkImage_def writesLogged_primitives split: if_splits sum.splits)

lemma checkDeployment_logged:
  "checkDeployment c dpl store ds = (r, store', ds') \<Longrightarrow> writesLoggedClaimsKept ds ds'"
  by (auto simp add: checkDeployment_def writesLogged_primitives
      split: option.splits if_splits sum.splits prod.splits
      dest!: checkImage_logged intro: writesLoggedClaimsKept_trans)

lemma finishStarting_logged:
  "finishStarting c pvc vol pv dpl store ds = (r, store', ds')
     \<Longrightarrow> writesLoggedClaimsKept ds ds'"
  by (auto simp add: finishStarting_def Let_def
      split: if_splits prod.splits outcome.splits dest!: checkDeployment_logged)

lemma handleStarting_tail_logged:
  assumes "getOrCreatePVC c store ds = (Inr pvc, store1, ds1)"
    and "handleStarting c store ds = (r, store', ds')"
  shows "writesLoggedClaimsKept ds1 ds'"
  using assms
  by (auto simp add: handleStarting_def getOrCreateS3Endpoints_def
      split: prod.splits sum.splits
      dest!: getOrCreateVolume_logged getOrCreatePV_logged getOrCreateDeployment_logged
        getOrCreateService_logged s3EndpointsLoop_logged finishStarting_logged;
      blast intro: writesLoggedClaimsKept_trans)

lemma handleStarting_logged:
  assumes "handleStarting c store ds = (r, store', ds')"
  shows "writesLogged ds ds'"
proof -
  obtain r1 store1 ds1 where g: "getOrCreatePVC c store ds = (r1, store1, ds1)"
    by (cases "getOrCreatePVC c store ds") auto
  note l = getOrCreatePVC_logged [OF g]
  show ?thesis
  proof (cases r1)
    case (Inl e)
    with g assms l show ?thesis by (simp add: handleStarting_def)
  next
    case (Inr pvc)
    with g have "getOrCreatePVC c store ds = (Inr pvc, store1, ds1)" by simp
    from handleStarting_tail_logged [OF this assms] l show ?thesis
      by (blast intro: writesLogged_trans writesLoggedClaimsKept_weaken)
  qed
qed

lemma handleRunning_logged:
  assumes "handleRunning c store ds = (r, store', ds')"
  shows "writesLogged ds ds'"
proof (cases "GetDeployment ds (osName store)")
  case (Inl e)
  with assms show ?thesis by (auto simp add: handleRunning_def split: if_splits)
next
  case (Inr dpl)
  obtain r1 store1 ds1 where cd: "checkDeployment c dpl store ds = (r1, store1, ds1)"
    by (cases "checkDeployment c dpl store ds") auto
  from checkDeployment_logged [OF cd] have "writesLogged ds ds1"
    by (rule writesLoggedClaimsKept_weaken)
  with assms Inr cd show ?thesis
    by (auto simp add: handleRunning_def split: if_splits sum.splits outcome.splits)
qed

lemma dispatch_logged:
  assumes "dispatch c store ds = (r, store', ds')"
  shows "writesLogged ds ds'"
proof -
  have u: "writesLogged ds d" if "UpdateDeployment ds dpl = (x, d)" for dpl x d
    using writesLogged_primitives(7) [of ds dpl] that
    by (simp add: writesLoggedClaimsKept_def)
  have f: "writesLogged ds d" if "RemoveFinalizerForObjectStore ds st = (x, d)" for st x d
    using writesLogged_primitives(8) [of ds st] that
    by (simp add: writesLoggedClaimsKept_def)
  have "writesLogged ds ds'" if "handleStopping c store ds = (r, store', ds')"
    using that
    by (auto simp add: handleStopping_def split: sum.splits if_splits prod.splits dest: u)
  moreover have "writesLogged ds ds'" if "handleTerminating c store ds = (r, store', ds')"
    using that
    by (auto simp add: handleTerminating_def split: sum.splits if_splits prod.splits dest: f)
  moreover have "writesLogged ds ds'" if "handleStopped c store ds = (r, store', ds')"
    using that by (auto simp add: handleStopped_def split: if_splits)
  moreover have "writesLogged ds ds'" if "initializeObjectStore c store ds = (r, store', ds')"
    using that by (auto simp add: initializeObjectStore_def split: if_splits)
  ultimately show ?thesis
    using assms handleStarting_logged [of c store ds r store' ds']
      handleRunning_logged [of c store ds r store' ds']
    by (auto simp add: dispatch_def split: if_splits objectStoreState.splits)
qed

lemma reconcile_logged:
  "snd (reconcile c ds key) = ds \<or>
   length (dsActions ds) < length (dsActions (snd (reconcile c ds key)))"
proof -
  have "ds2 = ds \<or> length (dsActions ds) < length (dsActions ds2)"
    if "dispatch c store ds = (r, store', ds')"
      and "ds2 = deferredStatusUpdate store store' ds'" for store r store' ds' ds2
    using dispatch_logged [OF that(1)] that(2)
    by (auto simp add: deferredStatusUpdate_def writesLogged_def)
  then show ?thesis
    by (auto simp add: reconcile_def split: sum.splits prod.splits)
qed

subsection \<open>Writing the status\<close>

lemma UpdateObjectStoreStatus_lookups [simp]:
  "GetVolumeRO (snd (UpdateObjectStoreStatus ds store)) name = GetVolumeRO ds name"
  "GetVolume (snd (UpdateObjectStoreStatus ds store)) name = GetVolume ds name"
  "GetPersistentVolumeClaim (snd (UpdateObjectStoreStatus ds store)) ns name
     = GetPersistentVolumeClaim ds ns name"
  "GetPersistentVolume (snd (UpdateObjectStoreStatus ds store)) name
     = GetPersistentVolume ds name"
  "GetDeployment (snd (UpdateObjectStoreStatus ds store)) name = GetDeployment ds name"
  "GetService (snd (UpdateObjectStoreStatus ds store)) ns name = GetService ds ns name"
  "GetIngress (snd (UpdateObjectStoreStatus ds store)) ns name = GetIngress ds ns name"
  "GetSecret (snd (UpdateObjectStoreStatus ds store)) ns name = GetSecret ds ns name"
  "GetSetting (snd (UpdateObjectStoreStatus ds store)) = GetSetting ds"
  "dsFault (snd (UpdateObjectStoreStatus ds store)) = dsFault ds"
  "dsFault ds (AUpdateObjectStoreStatus store) = None
     \<Longrightarrow> GetObjectStore (snd (UpdateObjectStoreStatus ds store)) (osName store) = Inr store"
  by (simp_all add: get_defs UpdateObjectStoreStatus_def split: option.splits)

lemma statusWrites_UpdateObjectStoreStatus [simp]:
  "statusWrites (snd (UpdateObjectStoreStatus ds store)) = Suc (statusWrites ds)"
  by (simp add: statusWrites_def)

text \<open>
  C1, as the code has it. In a pass that reaches the handlers, the status is written
  exactly when the status that the handler leaves differs from the status that the object
  store had at the start of the pass, and then once. A pass that issued no write call
  left the datastore as it was, so the pass that follows it issues no write call either.
\<close>

theorem status_written_on_change:
  assumes "SplitMetaNamespaceKey key = Inr (ns, name)"
    and "GetObjectStore ds name = Inr store"
    and "isResponsibleFor c ds store"
  shows "statusWrites (snd (reconcile c ds key))
           = statusWrites ds +
             (if Status (fst (snd (dispatch c store ds))) = Status store then 0 else 1) \<and>
         (dsActions (snd (reconcile c ds key)) = dsActions ds
            \<longrightarrow> dsActions (snd (reconcile c (snd (reconcile c ds key)) key)) = dsActions ds)"
proof -
  obtain r store' ds' where d: "dispatch c store ds = (r, store', ds')"
    by (cases "dispatch c store ds") auto
  from dispatch_logged [OF d] have "statusWrites ds' = statusWrites ds"
    by (simp add: writesLogged_def)
  then have A: "statusWrites (snd (reconcile c ds key))
      = statusWrites ds +
        (if Status (fst (snd (dispatch c store ds))) = Status store then 0 else 1)"
    by (auto simp add: reconcile_found [OF assms] d deferredStatusUpdate_def)
  have B: "dsActions (snd (reconcile c (snd (reconcile c ds key)) key)) = dsActions ds"
    if "dsActions (snd (reconcile c ds key)) = dsActions ds"
  proof -
    from reconcile_logged [of c ds key] that have "snd (reconcile c ds key) = ds" by auto
    then show ?thesis by simp
  qed
  from A B show ?thesis by blast
qed

lemma osTestStoppedObjectStore_fields [simp]:
  "osName osTestStoppedObjectStore = ''test-object-store''"
  "genPVName osTestStoppedObjectStore = ''pv-test-object-store''"
  "genPVCName osTestStoppedObjectStore = ''pvc-test-object-store''"
  "osDeletionTimestamp osTestStoppedObjectStore = None"
  "Status osTestStoppedObjectStore
     = \<lparr>State = Stopped, Endpoints = [''test-object-store.default.svc'']\<rparr>"
  "specTargetState (Spec osTestStoppedObjectStore) = Running"
  "specImage (Spec osTestStoppedObjectStore) = ''quay.io/s3gw/s3gw:latest''"
  "specUIImage (Spec osTestStoppedObjectStore) = ''quay.io/s3gw/s3gw-ui:latest''"
  "specEndpoints (Spec osTestStoppedObjectStore) = []"
  by (simp_all add: osTestStoppedObjectStore_def osTestNewObjectStore_def genPVName_def
      genPVCName_def)

lemma genName_setState [simp]:
  "genPVName (setState st store) = genPVName store"
  "genPVCName (setState st store) = genPVCName store"
  by (simp_all add: genPVName_def genPVCName_def)

lemma stoppedFixture_lookups:
  "GetObjectStore stoppedFixture ''test-object-store'' = Inr osTestStoppedObjectStore"
  "dsFault stoppedFixture a = None"
  "dsActions stoppedFixture = []"
  using withObjectStore_lookups(1) [of osTestStoppedObjectStore runningFixture]
  by (simp_all add: stoppedFixture_def)
    (simp_all add: runningFixture_def withObjectStore_def withPVC_def withVolume_def
      withPV_def withDeployment_def withService_def newFixture_def)

lemma stoppedFixture_responsible:
  "isResponsibleFor TestObjectStoreController stoppedFixture osTestStoppedObjectStore"
  "isResponsibleFor TestObjectStoreController
     (snd (UpdateObjectStoreStatus stoppedFixture st)) (setState Starting osTestStoppedObjectStore)"
  by (simp_all add: isResponsibleFor_def stoppedFixture_def runningFixture_lookups)

lemma stoppedFixture_first_pass: "reconcile TestObjectStoreController stoppedFixture TestKey
   = (Ok, snd (UpdateObjectStoreStatus stoppedFixture (setState Starting osTestStoppedObjectStore)))"
  by (simp add: reconcile_def TestKey_split stoppedFixture_lookups stoppedFixture_responsible
      dispatch_def handleStopped_def deferredStatusUpdate_def Status_setState)

lemma stoppedFixture_handleStarting: "handleStarting TestObjectStoreController (setState Starting osTestStoppedObjectStore)
     (snd (UpdateObjectStoreStatus stoppedFixture (setState Starting osTestStoppedObjectStore)))
   = (Ok, setState Running (setState Starting osTestStoppedObjectStore),
      snd (UpdateObjectStoreStatus stoppedFixture (setState Starting osTestStoppedObjectStore)))"
  by (simp add: handleStarting_def getOrCreate_found stoppedFixture_def runningFixture_lookups
      getOrCreateS3Endpoints_def finishStarting_def checkPVC_def checkVolume_def checkPV_def
      checkDeployment_ready)

lemma stoppedFixture_second_pass: "reconcile TestObjectStoreController
     (snd (UpdateObjectStoreStatus stoppedFixture (setState Starting osTestStoppedObjectStore))) TestKey
   = (Ok, snd (UpdateObjectStoreStatus
       (snd (UpdateObjectStoreStatus stoppedFixture (setState Starting osTestStoppedObjectStore)))
       (setState Running (setState Starting osTestStoppedObjectStore))))"
  using UpdateObjectStoreStatus_lookups(11) [of stoppedFixture "setState Starting osTestStoppedObjectStore"]
  by (simp add: reconcile_def TestKey_split stoppedFixture_lookups stoppedFixture_responsible
      dispatch_def stoppedFixture_handleStarting deferredStatusUpdate_def Status_setState)


lemma runningFixture_pass:
  "isResponsibleFor TestObjectStoreController runningFixture osTestRunningObjectStore"
  "dispatch TestObjectStoreController osTestRunningObjectStore runningFixture
     = (Ok, osTestRunningObjectStore, runningFixture)"
  "reconcile TestObjectStoreController runningFixture TestKey = (Ok, runningFixture)"
proof -
  show r: "isResponsibleFor TestObjectStoreController runningFixture osTestRunningObjectStore"
    by (simp add: isResponsibleFor_def runningFixture_lookups)
  show d: "dispatch TestObjectStoreController osTestRunningObjectStore runningFixture
      = (Ok, osTestRunningObjectStore, runningFixture)"
    by (simp add: dispatch_def handleRunning_def runningFixture_lookups
        checkDeployment_ready checkPVC_def checkVolume_def checkPV_def)
  show "reconcile TestObjectStoreController runningFixture TestKey = (Ok, runningFixture)"
    by (simp add: reconcile_def TestKey_split runningFixture_lookups r d
        deferredStatusUpdate_def)
qed

theorem status_written_on_change_witness:
  "statusWrites (snd (reconcile TestObjectStoreController stoppedFixture TestKey))
     = statusWrites stoppedFixture + 1 \<and>
   statusWrites (snd (reconcile TestObjectStoreController runningFixture TestKey))
     = statusWrites runningFixture \<and>
   dsActions (snd (reconcile TestObjectStoreController
       (snd (reconcile TestObjectStoreController runningFixture TestKey)) TestKey))
     = dsActions runningFixture"
proof -
  let ?c = TestObjectStoreController
  have d: "dispatch ?c osTestStoppedObjectStore stoppedFixture
      = (Ok, setState Starting osTestStoppedObjectStore, stoppedFixture)"
    by (simp add: dispatch_def handleStopped_def)
  have A: "statusWrites (snd (reconcile ?c stoppedFixture TestKey))
      = statusWrites stoppedFixture + 1"
    using status_written_on_change
      [OF TestKey_split stoppedFixture_lookups(1) stoppedFixture_responsible(1)]
    by (simp add: d Status_setState)
  have B: "statusWrites (snd (reconcile ?c runningFixture TestKey))
        = statusWrites runningFixture \<and>
      dsActions (snd (reconcile ?c (snd (reconcile ?c runningFixture TestKey)) TestKey))
        = dsActions runningFixture"
    using status_written_on_change
      [OF TestKey_split runningFixture_lookups(1) runningFixture_pass(1)]
    by (simp add: runningFixture_pass)
  from A B show ?thesis by simp
qed

text \<open>
  As the specification states it, the property fails: a pass moves the state machine by one step, so the
  pass that follows may write the status again although nothing but the status has
  changed. From \<open>Stopped\<close> with target state \<open>Running\<close> and healthy dependents, the first
  pass writes \<open>Starting\<close> and the second pass writes \<open>Running\<close>; neither pass issues any
  other write.
\<close>

theorem second_pass_writes_status_counterexample:
  "dsActions stoppedFixture = [] \<and>
   dsActions (snd (reconcile TestObjectStoreController stoppedFixture TestKey))
     = [AUpdateObjectStoreStatus (setState Starting osTestStoppedObjectStore)] \<and>
   dsActions (snd (reconcile TestObjectStoreController
       (snd (reconcile TestObjectStoreController stoppedFixture TestKey)) TestKey))
     = [AUpdateObjectStoreStatus (setState Starting osTestStoppedObjectStore),
        AUpdateObjectStoreStatus (setState Running (setState Starting osTestStoppedObjectStore))] \<and>
   statusWrites (snd (reconcile TestObjectStoreController
       (snd (reconcile TestObjectStoreController stoppedFixture TestKey)) TestKey))
     = Suc (statusWrites (snd (reconcile TestObjectStoreController stoppedFixture TestKey)))"
  by (simp add: stoppedFixture_first_pass stoppedFixture_second_pass stoppedFixture_lookups)

subsection \<open>The first passes over a new object store\<close>

lemma deferredStatusUpdate_claims [simp]:
  "GetPersistentVolumeClaim (deferredStatusUpdate store store' ds) ns name
     = GetPersistentVolumeClaim ds ns name"
  by (simp add: deferredStatusUpdate_def)

lemma handleStarting_creates_claim:
  assumes "GetPersistentVolumeClaim ds (namespace c) (genPVCName store) = Inl NotFound"
    and "dsFault ds (ACreatePersistentVolumeClaim (newPVC c store)) = None"
    and "State (Status store) = Starting"
  shows "GetPersistentVolumeClaim (snd (snd (handleStarting c store ds))) (namespace c)
           (genPVCName store) = Inr (newPVC c store)"
proof -
  let ?dsP = "snd (createPVC c store ds)"
  from create_stores_new_resource(1) [OF assms(2)]
  have cr: "createPVC c store ds = (Inr (newPVC c store), ?dsP)"
    and lk: "GetPersistentVolumeClaim ?dsP (namespace c) (genPVCName store)
               = Inr (newPVC c store)"
    by (simp_all add: prod_eq_iff)
  have g: "getOrCreatePVC c store ds = (Inr (newPVC c store), store, ?dsP)"
    using getOrCreate_created(1) [OF assms(1) _ cr] assms(3) by (simp add: setState_same)
  obtain r store' ds' where h: "handleStarting c store ds = (r, store', ds')"
    by (cases "handleStarting c store ds") auto
  from handleStarting_tail_logged [OF g h]
  have "dsPersistentVolumeClaims ds' = dsPersistentVolumeClaims ?dsP"
    by (simp add: writesLoggedClaimsKept_def)
  with lk h show ?thesis by (simp add: GetPersistentVolumeClaim_def)
qed


text \<open>
  C7, as the code has it. Let the object store have an empty status and no deletion
  timestamp, and let none of its dependent resources exist. With a target state other
  than \<open>Stopped\<close>, one pass writes the status with state \<open>Starting\<close> and does nothing
  else, so no storage claim exists after it; when the status write and the creation of
  the claim are answered without error, the storage claim built from the spec exists after
  the second pass. With target state \<open>Stopped\<close>, the pass changes nothing.
\<close>

theorem first_pass_initializes:
  assumes "SplitMetaNamespaceKey key = Inr (ns, name)"
    and "GetObjectStore ds name = Inr store"
    and "osName store = name"
    and "osDeletionTimestamp store = None"
    and "Status store = \<lparr>State = StateNone, Endpoints = []\<rparr>"
    and "GetPersistentVolumeClaim ds (namespace c) (genPVCName store) = Inl NotFound"
    and "GetVolume ds (genPVName store) = Inl NotFound"
    and "GetPersistentVolume ds (genPVName store) = Inl NotFound"
    and "GetDeployment ds (osName store) = Inl NotFound"
    and "GetService ds (namespace c) (osName store) = Inl NotFound"
  shows "(specTargetState (Spec store) \<noteq> Stopped \<longrightarrow>
            reconcile c ds key
              = (Ok, snd (UpdateObjectStoreStatus ds (setState Starting store))) \<and>
            GetPersistentVolumeClaim (snd (reconcile c ds key)) (namespace c) (genPVCName store)
              = Inl NotFound \<and>
            (dsFault ds (AUpdateObjectStoreStatus (setState Starting store)) = None \<and>
             dsFault ds (ACreatePersistentVolumeClaim (newPVC c (setState Starting store))) = None
               \<longrightarrow> GetPersistentVolumeClaim
                     (snd (reconcile c (snd (reconcile c ds key)) key)) (namespace c)
                     (genPVCName store)
                   = Inr (newPVC c (setState Starting store)))) \<and>
         (specTargetState (Spec store) = Stopped \<longrightarrow> reconcile c ds key = (Ok, ds))"
proof -
  let ?s1 = "setState Starting store"
  let ?ds1 = "snd (UpdateObjectStoreStatus ds ?s1)"
  have ro: "GetVolumeRO ds (genPVName store) = Inl NotFound"
    using assms(7) by (simp add: GetVolumeRO_def GetVolume_def)
  have resp: "isResponsibleFor c ds store" "isResponsibleFor c ?ds1 ?s1"
    using ro by (simp_all add: isResponsibleFor_def)
  have st: "State (Status store) = StateNone" using assms(5) by simp
  have d: "dispatch c store ds = initializeObjectStore c store ds"
    using assms(4) st by (simp add: dispatch_def)
  note r = reconcile_found [OF assms(1,2) resp(1), unfolded d]
  have A: "reconcile c ds key = (Ok, ds)" if "specTargetState (Spec store) = Stopped"
    using that by (simp add: r initializeObjectStore_def deferredStatusUpdate_def)
  have B: "reconcile c ds key = (Ok, ?ds1)" if "specTargetState (Spec store) \<noteq> Stopped"
    using that st by (simp add: r initializeObjectStore_def deferredStatusUpdate_def
        Status_setState assms(5))
  have C: "GetPersistentVolumeClaim (snd (reconcile c (snd (reconcile c ds key)) key))
        (namespace c) (genPVCName store) = Inr (newPVC c ?s1)"
    if "specTargetState (Spec store) \<noteq> Stopped"
      "dsFault ds (AUpdateObjectStoreStatus ?s1) = None"
      "dsFault ds (ACreatePersistentVolumeClaim (newPVC c ?s1)) = None"
  proof -
    have g: "GetObjectStore ?ds1 name = Inr ?s1"
      using UpdateObjectStoreStatus_lookups(11) [OF that(2)] assms(3) by simp
    have d2: "dispatch c ?s1 ?ds1 = handleStarting c ?s1 ?ds1"
      using assms(4) by (simp add: dispatch_def)
    have "GetPersistentVolumeClaim (snd (snd (handleStarting c ?s1 ?ds1))) (namespace c)
        (genPVCName ?s1) = Inr (newPVC c ?s1)"
      using assms(6) that(3) by (intro handleStarting_creates_claim) (simp_all add: genPVCName_def)
    then show ?thesis
      by (simp add: B [OF that(1)] reconcile_found [OF assms(1) g resp(2)] d2 genPVCName_def)
  qed
  from A B C assms(6) show ?thesis by simp
qed


lemma freshFixture_lookups:
  "GetObjectStore freshFixture ''test-object-store'' = Inr osTestNewObjectStore"
  "GetPersistentVolumeClaim freshFixture ns name = Inl NotFound"
  "GetVolume freshFixture name = Inl NotFound"
  "GetVolumeRO freshFixture name = Inl NotFound"
  "GetPersistentVolume freshFixture name = Inl NotFound"
  "GetDeployment freshFixture name = Inl NotFound"
  "GetService freshFixture ns name = Inl NotFound"
  "dsFault freshFixture a = None"
  "dsActions freshFixture = []"
  using withObjectStore_lookups(1) [of osTestNewObjectStore newFixture]
  by (simp_all add: freshFixture_def newFixture_lookups) (simp add: newFixture_def)

theorem first_pass_initializes_witness:
  "reconcile TestObjectStoreController freshFixture TestKey
     = (Ok, snd (UpdateObjectStoreStatus freshFixture (setState Starting osTestNewObjectStore))) \<and>
   GetPersistentVolumeClaim
       (snd (reconcile TestObjectStoreController
          (snd (reconcile TestObjectStoreController freshFixture TestKey)) TestKey))
       ''default'' ''pvc-test-object-store''
     = Inr (newPVC TestObjectStoreController (setState Starting osTestNewObjectStore)) \<and>
   reconcile TestObjectStoreController
       (withObjectStore
          (osTestNewObjectStore
             \<lparr>Spec := (Spec osTestNewObjectStore)\<lparr>specTargetState := Stopped\<rparr>\<rparr>) newFixture)
       TestKey
     = (Ok, withObjectStore
          (osTestNewObjectStore
             \<lparr>Spec := (Spec osTestNewObjectStore)\<lparr>specTargetState := Stopped\<rparr>\<rparr>) newFixture)"
proof -
  let ?c = TestObjectStoreController
  let ?s = "osTestNewObjectStore\<lparr>Spec := (Spec osTestNewObjectStore)\<lparr>specTargetState := Stopped\<rparr>\<rparr>"
  have n: "osName ?s = ''test-object-store''" "genPVName ?s = ''pv-test-object-store''"
    "genPVCName ?s = ''pvc-test-object-store''"
    by (simp_all add: genPVName_def genPVCName_def)
  have A: "reconcile ?c freshFixture TestKey
        = (Ok, snd (UpdateObjectStoreStatus freshFixture (setState Starting osTestNewObjectStore))) \<and>
      GetPersistentVolumeClaim
          (snd (reconcile ?c (snd (reconcile ?c freshFixture TestKey)) TestKey))
          ''default'' ''pvc-test-object-store''
        = Inr (newPVC ?c (setState Starting osTestNewObjectStore))"
    using first_pass_initializes
      [OF TestKey_split, of freshFixture osTestNewObjectStore ?c]
    by (auto simp add: freshFixture_lookups)
  have B: "reconcile ?c (withObjectStore ?s newFixture) TestKey
      = (Ok, withObjectStore ?s newFixture)"
    using first_pass_initializes
      [OF TestKey_split, of "withObjectStore ?s newFixture" ?s ?c]
      withObjectStore_lookups(1) [of ?s newFixture]
    by (simp add: n newFixture_lookups)
  from A B show ?thesis by blast
qed

text \<open>
  As the specification states it, the property fails: the first pass over a new object store only moves
  the state to \<open>Starting\<close>. After it no storage claim exists, and the status write is the
  only write call that was issued.
\<close>

theorem no_claim_after_first_pass_counterexample:
  "Status osTestNewObjectStore = \<lparr>State = StateNone, Endpoints = []\<rparr> \<and>
   specTargetState (Spec osTestNewObjectStore) \<noteq> Stopped \<and>
   GetObjectStore freshFixture ''test-object-store'' = Inr osTestNewObjectStore \<and>
   GetPersistentVolumeClaim (snd (reconcile TestObjectStoreController freshFixture TestKey))
     ''default'' ''pvc-test-object-store'' = Inl NotFound \<and>
   dsActions (snd (reconcile TestObjectStoreController freshFixture TestKey))
     = [AUpdateObjectStoreStatus (setState Starting osTestNewObjectStore)]"
proof -
  have "reconcile TestObjectStoreController freshFixture TestKey
      = (Ok, snd (UpdateObjectStoreStatus freshFixture (setState Starting osTestNewObjectStore)))"
    by (simp add: reconcile_def TestKey_split freshFixture_lookups isResponsibleFor_def
        dispatch_def initializeObjectStore_def deferredStatusUpdate_def Status_setState)
  then show ?thesis by (simp add: freshFixture_lookups)
qed

end
